theory Spec2Isabelle
  imports Main
begin

section \<open>Values of the YAML configuration\<close>

text \<open>
  \<^verbatim>\<open>rsnapshot_backup.py\<close> reads its items as Python dictionaries produced by the YAML
  loader and tests them with \<^verbatim>\<open>"key" in item\<close>. An item is therefore a map from key
  names to values. The values modelled are the YAML scalars and lists of strings
  (the only list the program reads is \<^verbatim>\<open>exclude\<close>); floats and nested mappings are
  outside the model.
\<close>

datatype val = VNone | VBool bool | VInt int | VStr string | VList "string list"

type_synonym item = "string \<rightharpoonup> val"

datatype exn =
    KeyError string
  | TypeError
  | AttributeError
  | CmdError        \<comment> \<open>\<^verbatim>\<open>Exception("Caught exception on subprocess.run execution")\<close>\<close>
  | LoadError       \<comment> \<open>the configuration file could not be opened or parsed\<close>

definition tab :: string where "tab = [CHR 0x09]"
definition nl :: string where "nl = [CHR 0x0A]"
definition sq :: string where "sq = [CHR 0x27]"
definition dq :: string where "dq = [CHR 0x22]"

subsection \<open>\<^verbatim>\<open>str()\<close>, truth value, \<^verbatim>\<open>==\<close>\<close>

fun str_of_nat :: "nat \<Rightarrow> string" where
  "str_of_nat n =
     (if n < 10 then [''0123456789'' ! n]
      else str_of_nat (n div 10) @ [''0123456789'' ! (n mod 10)])"

declare str_of_nat.simps [simp del]

definition str_of_int :: "int \<Rightarrow> string" where
  "str_of_int i = (if i < 0 then ''-'' @ str_of_nat (nat (- i)) else str_of_nat (nat i))"

fun join :: "string \<Rightarrow> string list \<Rightarrow> string" where
  "join sep [] = []"
| "join sep [x] = x"
| "join sep (x # y # ys) = x @ sep @ join sep (y # ys)"

text \<open>
  Strings are sequences of code points below 256. \<open>py_repr\<close> is Python 3's \<^verbatim>\<open>repr\<close>
  of a string: single quotes, or double quotes when the string has a single quote and
  no double quote; backslash, the enclosing quote, tab, newline and carriage return are
  escaped with a backslash, and the other characters that are not printable are written
  \<^verbatim>\<open>\xNN\<close>.
\<close>

definition hex_digit :: "nat \<Rightarrow> char" where
  "hex_digit n = ''0123456789abcdef'' ! n"

definition printable :: "char \<Rightarrow> bool" where
  "printable c =
     (let n = (of_char c :: nat) in (32 \<le> n \<and> n < 127) \<or> (161 \<le> n \<and> n \<noteq> 173))"

definition py_escape :: "char \<Rightarrow> char \<Rightarrow> string" where
  "py_escape q c =
     (if c = CHR 0x5C then [CHR 0x5C, CHR 0x5C]
      else if c = q then [CHR 0x5C, q]
      else if c = CHR 0x09 then [CHR 0x5C, CHR ''t'']
      else if c = CHR 0x0A then [CHR 0x5C, CHR ''n'']
      else if c = CHR 0x0D then [CHR 0x5C, CHR ''r'']
      else if printable c then [c]
      else [CHR 0x5C, CHR ''x'', hex_digit (of_char c div 16), hex_digit (of_char c mod 16)])"

definition quote_for :: "string \<Rightarrow> char" where
  "quote_for s = (if CHR 0x27 \<in> set s \<and> CHR 0x22 \<notin> set s then CHR 0x22 else CHR 0x27)"

definition py_repr :: "string \<Rightarrow> string" where
  "py_repr s = [quote_for s] @ concat (map (py_escape (quote_for s)) s) @ [quote_for s]"

text \<open>
  What \<^verbatim>\<open>"{x}".format(x=v)\<close> inserts for a value, that is \<^verbatim>\<open>str(v)\<close>; for a list
  it is the \<^verbatim>\<open>repr\<close> of the elements between brackets.
\<close>

fun py_str :: "val \<Rightarrow> string" where
  "py_str VNone = ''None''"
| "py_str (VBool b) = (if b then ''True'' else ''False'')"
| "py_str (VInt i) = str_of_int i"
| "py_str (VStr s) = s"
| "py_str (VList xs) = ''['' @ join '', '' (map py_repr xs) @ '']''"

fun py_truthy :: "val \<Rightarrow> bool" where
  "py_truthy VNone = False"
| "py_truthy (VBool b) = b"
| "py_truthy (VInt i) = (i \<noteq> 0)"
| "py_truthy (VStr s) = (s \<noteq> [])"
| "py_truthy (VList xs) = (xs \<noteq> [])"

text \<open>Python's \<^verbatim>\<open>==\<close>: a boolean equals the integer 0 or 1 it stands for.\<close>

fun norm_val :: "val \<Rightarrow> val" where
  "norm_val (VBool b) = VInt (if b then 1 else 0)"
| "norm_val v = v"

definition py_eq :: "val \<Rightarrow> val \<Rightarrow> bool" where
  "py_eq a b = (norm_val a = norm_val b)"

definition py_in_list :: "val \<Rightarrow> val list \<Rightarrow> bool" where
  "py_in_list v xs = (norm_val v \<in> set (map norm_val xs))"

definition getitem :: "item \<Rightarrow> string \<Rightarrow> exn + val" where
  "getitem it k = (case it k of None \<Rightarrow> Inl (KeyError k) | Some v \<Rightarrow> Inr v)"

definition bind_e :: "exn + 'a \<Rightarrow> ('a \<Rightarrow> exn + 'b) \<Rightarrow> exn + 'b" where
  "bind_e r f = (case r of Inl e \<Rightarrow> Inl e | Inr x \<Rightarrow> f x)"

section \<open>Command line\<close>

datatype mode = Sync | Rotate_hourly | Rotate_daily | Rotate_weekly | Rotate_monthly

record args =
  debug :: bool
  item_number :: "string option"
  host :: "string option"
  mode :: mode

section \<open>Item defaults (lines 181-237)\<close>

definition set_default :: "string \<Rightarrow> val \<Rightarrow> item \<Rightarrow> item" where
  "set_default k v it = (if k \<in> dom it then it else it(k \<mapsto> v))"

definition set_verbosity :: "bool \<Rightarrow> item \<Rightarrow> item" where
  "set_verbosity dbg it =
     (if dbg
      then it(''verbosity_level'' \<mapsto> VInt 5,
              ''rsync_verbosity_args'' \<mapsto> VStr ''--human-readable --progress'')
      else it(''verbosity_level'' \<mapsto> VInt 2, ''rsync_verbosity_args'' \<mapsto> VStr ''''))"

definition defaults_before :: "(string \<times> val) list" where
  "defaults_before =
     [(''retain_daily'', VInt 7), (''retain_weekly'', VInt 4), (''retain_monthly'', VInt 3),
      (''connect_user'', VStr ''root''),
      (''validate_hostname'', VBool True),
      (''mysql_noevents'', VBool False), (''postgresql_noclean'', VBool False),
      (''native_txt_check'', VBool False), (''native_10h_limit'', VBool False)]"

definition defaults_after :: "(string \<times> val) list" where
  "defaults_after =
     [(''rsync_args'', VStr ''''),
      (''mysql_dump_dir'', VStr ''/var/backups/mysql''),
      (''postgresql_dump_dir'', VStr ''/var/backups/postgresql''),
      (''mongodb_dump_dir'', VStr ''/var/backups/mongodb''),
      (''mysqldump_args'', VStr ''''), (''pg_dump_args'', VStr ''''), (''mongo_args'', VStr ''''),
      (''xtrabackup_throttle'', VStr ''20''), (''xtrabackup_parallel'', VStr ''2''),
      (''xtrabackup_compress_threads'', VStr ''2''), (''xtrabackup_args'', VStr '''')]"

definition set_defaults :: "(string \<times> val) list \<Rightarrow> item \<Rightarrow> item" where
  "set_defaults kvs it = fold (\<lambda>(k, v). set_default k v) kvs it"

definition apply_defaults :: "bool \<Rightarrow> item \<Rightarrow> item" where
  "apply_defaults dbg it =
     set_defaults defaults_after (set_verbosity dbg (set_defaults defaults_before it))"

section \<open>The world outside: commands, files, run state\<close>

text \<open>
  Every external command goes through \<^verbatim>\<open>run_cmd\<close> or \<^verbatim>\<open>run_cmd_pipe\<close>. A command is
  recorded with the place of the source that issued it. One-line commands carry their
  text; the multi-line remote dump scripts are recorded as the name of their template
  and the values substituted into it, the fixed text of the template not being
  reproduced. The rotation call site also records the \<^verbatim>\<open>path\<close> that was written to
  \<^verbatim>\<open>snapshot_root\<close> of the configuration file the tool is started on.
\<close>

datatype site =
    Before_backup_check
  | Rsnapshot_rotate val
  | Ssh_check
  | Loopback_script
  | Ssh_recheck
  | Hostname_query
  | Exec_before_rsync
  | Remote_dump
  | Remove_partial_dumps
  | Rsnapshot_sync
  | Exec_after_rsync
  | Native_txt_check
  | Native_rsnapshot_sync

datatype cmd = Shell string | Script string "string list"

type_synonym call = "site \<times> cmd"

text \<open>
  What a command does is not decided by the program: it exits with a return code and
  an output, or starting or waiting for it raises. The answer may depend on how many
  commands ran before.
\<close>

datatype cmd_result = Exited int string | Crashed

record env =
  respond :: "nat \<Rightarrow> call \<Rightarrow> cmd_result"
  self_hostname :: string

record run_state =
  errors :: int
  paths_processed :: "val list"
  conf_file :: "string option"
  passwd_file :: "string option"
  trace :: "call list"

definition RSNAPSHOT_CONF :: string where
  "RSNAPSHOT_CONF = ''/opt/sysadmws/rsnapshot_backup/rsnapshot.conf''"

definition RSNAPSHOT_PASSWD :: string where
  "RSNAPSHOT_PASSWD = ''/opt/sysadmws/rsnapshot_backup/rsnapshot.passwd''"

subsection \<open>Statements of the loop body\<close>

text \<open>
  A statement of the loop body ends normally, with \<^verbatim>\<open>continue\<close>, or with an
  exception; the state it reached is kept in all three cases.
\<close>

datatype 'a outcome = Norm 'a | Continue | Raise exn

type_synonym 'a prog = "run_state \<Rightarrow> 'a outcome \<times> run_state"

definition ret :: "'a \<Rightarrow> 'a prog" where
  "ret x s = (Norm x, s)"

definition bnd :: "'a prog \<Rightarrow> ('a \<Rightarrow> 'b prog) \<Rightarrow> 'b prog" where
  "bnd m f s =
     (case m s of
        (Norm x, s') \<Rightarrow> f x s'
      | (Continue, s') \<Rightarrow> (Continue, s')
      | (Raise e, s') \<Rightarrow> (Raise e, s'))"

definition thn :: "'a prog \<Rightarrow> 'b prog \<Rightarrow> 'b prog" where
  "thn m n = bnd m (\<lambda>_. n)"

definition lift :: "exn + 'a \<Rightarrow> 'a prog" where
  "lift r s = (case r of Inl e \<Rightarrow> (Raise e, s) | Inr x \<Rightarrow> (Norm x, s))"

definition continue :: "'a prog" where
  "continue s = (Continue, s)"

definition incr_errors :: "unit prog" where
  "incr_errors s = (Norm (), s\<lparr>errors := errors s + 1\<rparr>)"

text \<open>\<^verbatim>\<open>try: ... except Exception as e: raise Exception("Caught exception ...")\<close>\<close>

definition guarded :: "'a prog \<Rightarrow> 'a prog" where
  "guarded m s = (case m s of (Raise e, s') \<Rightarrow> (Raise CmdError, s') | r \<Rightarrow> r)"

definition run_cmd_pipe :: "env \<Rightarrow> site \<Rightarrow> cmd \<Rightarrow> (int \<times> string) prog" where
  "run_cmd_pipe env st c s =
     (case respond env (length (trace s)) (st, c) of
        Exited rc out \<Rightarrow> (Norm (rc, out), s\<lparr>trace := trace s @ [(st, c)]\<rparr>)
      | Crashed \<Rightarrow> (Raise CmdError, s\<lparr>trace := trace s @ [(st, c)]\<rparr>))"

definition run_cmd :: "env \<Rightarrow> site \<Rightarrow> cmd \<Rightarrow> int prog" where
  "run_cmd env st c = bnd (run_cmd_pipe env st c) (\<lambda>(rc, out). ret rc)"

text \<open>
  \<^verbatim>\<open>with open(RSNAPSHOT_CONF, "w") as f: f.write(template.format(...))\<close>: the file is
  opened, and so emptied, before the text is built; a failing lookup leaves it empty.
\<close>

definition write_conf :: "exn + string list \<Rightarrow> unit prog" where
  "write_conf r s =
     (case r of
        Inl e \<Rightarrow> (Raise e, s\<lparr>conf_file := Some []\<rparr>)
      | Inr ls \<Rightarrow> (Norm (), s\<lparr>conf_file := Some (concat (map (\<lambda>l. l @ nl) ls))\<rparr>))"

section \<open>Configuration files of the snapshot tool\<close>

text \<open>
  A configuration is built as the list of its lines, in the order of the template;
  \<open>write_conf\<close> ends each with a newline. \<open>fmts\<close> looks up the keys a
  \<^verbatim>\<open>format\<close> call reads, in order, and renders them.
\<close>

fun fmts :: "item \<Rightarrow> string list \<Rightarrow> exn + string list" where
  "fmts it [] = Inr []"
| "fmts it (k # ks) =
     bind_e (getitem it k) (\<lambda>v. bind_e (fmts it ks) (\<lambda>vs. Inr (py_str v # vs)))"

definition retain_hourly_line :: "item \<Rightarrow> string" where
  "retain_hourly_line it =
     (case it ''retain_hourly'' of
        Some h \<Rightarrow> ''retain'' @ tab @ tab @ ''hourly'' @ tab @ py_str h
      | None \<Rightarrow> ''#'' @ ''retain'' @ tab @ tab @ ''hourly'' @ tab @ ''NONE'')"

text \<open>The first fifteen lines, which the three templates have in common.\<close>

definition conf_head :: "item \<Rightarrow> exn + string list" where
  "conf_head it =
     bind_e (getitem it ''path'') (\<lambda>root.
     bind_e (getitem it ''retain_daily'') (\<lambda>d.
     bind_e (getitem it ''retain_weekly'') (\<lambda>w.
     bind_e (getitem it ''retain_monthly'') (\<lambda>m.
     bind_e (getitem it ''verbosity_level'') (\<lambda>v.
     Inr [''config_version'' @ tab @ ''1.2'',
          ''snapshot_root'' @ tab @ py_str root,
          ''cmd_cp'' @ tab @ tab @ ''/bin/cp'',
          ''cmd_rm'' @ tab @ tab @ ''/bin/rm'',
          ''cmd_rsync'' @ tab @ ''/usr/bin/rsync'',
          ''cmd_ssh'' @ tab @ tab @ ''/usr/bin/ssh'',
          ''cmd_logger'' @ tab @ ''/usr/bin/logger'',
          retain_hourly_line it,
          ''retain'' @ tab @ tab @ ''daily'' @ tab @ py_str d,
          ''retain'' @ tab @ tab @ ''weekly'' @ tab @ py_str w,
          ''retain'' @ tab @ tab @ ''monthly'' @ tab @ py_str m,
          ''verbose'' @ tab @ tab @ py_str v,
          ''loglevel'' @ tab @ ''3'',
          ''logfile'' @ tab @ tab @ ''/opt/sysadmws/rsnapshot_backup/rsnapshot.log'',
          ''lockfile'' @ tab @ ''/opt/sysadmws/rsnapshot_backup/rsnapshot.pid''])))))"

definition rotation_conf :: "item \<Rightarrow> exn + string list" where
  "rotation_conf it =
     bind_e (conf_head it) (\<lambda>hd_lines.
     Inr (hd_lines @
          [''sync_first'' @ tab @ ''1'',
           ''# any backup definition enough for rotation'',
           ''backup'' @ tab @ tab @ ''/etc/'' @ tab @ tab @ ''rsnapshot/'']))"

definition ssh_args :: string where
  "ssh_args = ''-o BatchMode=yes -o StrictHostKeyChecking=no''"

subsection \<open>Backup lines (lines 793-854)\<close>

definition conf_backup_line :: "string \<Rightarrow> string \<Rightarrow> string \<Rightarrow> string \<Rightarrow> string \<Rightarrow> string" where
  "conf_backup_line user hst source tab_before_rsync_long_args rsync_long_args =
     ''backup'' @ tab @ tab @ user @ ''@'' @ hst @ '':'' @ source @ ''/'' @ tab @ ''rsnapshot/''
       @ tab_before_rsync_long_args @ rsync_long_args"

definition data_expand :: "string \<rightharpoonup> string list" where
  "data_expand =
     [''UBUNTU'' \<mapsto> [''/etc'', ''/home'', ''/root'', ''/var/spool/cron'', ''/var/lib/dpkg'',
                     ''/usr/local'', ''/opt/sysadmws''],
      ''DEBIAN'' \<mapsto> [''/etc'', ''/home'', ''/root'', ''/var/spool/cron'', ''/var/lib/dpkg'',
                     ''/usr/local'', ''/opt/sysadmws''],
      ''CENTOS'' \<mapsto> [''/etc'', ''/home'', ''/root'', ''/var/spool/cron'', ''/var/lib/rpm'',
                     ''/usr/local'', ''/opt/sysadmws'']]"

text \<open>\<^verbatim>\<open>item["source"] in data_expand\<close>: a list is not hashable.\<close>

definition expand_key :: "val \<Rightarrow> exn + string list option" where
  "expand_key v =
     (case v of VList xs \<Rightarrow> Inl TypeError | VStr s \<Rightarrow> Inr (data_expand s) | _ \<Rightarrow> Inr None)"

fun is_substring :: "string \<Rightarrow> string \<Rightarrow> bool" where
  "is_substring p [] = (p = [])"
| "is_substring p (c # cs) = (p = take (length p) (c # cs) \<or> is_substring p cs)"

text \<open>\<^verbatim>\<open>source in item["exclude"]\<close> for a string \<^verbatim>\<open>source\<close>.\<close>

definition str_in :: "string \<Rightarrow> val \<Rightarrow> exn + bool" where
  "str_in x v =
     (case v of
        VList xs \<Rightarrow> Inr (x \<in> set xs)
      | VStr s \<Rightarrow> Inr (is_substring x s)
      | _ \<Rightarrow> Inl TypeError)"

definition excluded :: "item \<Rightarrow> string \<Rightarrow> exn + bool" where
  "excluded it source =
     (case it ''exclude'' of None \<Rightarrow> Inr False | Some e \<Rightarrow> str_in source e)"

fun expand_lines :: "item \<Rightarrow> string list \<Rightarrow> exn + string list" where
  "expand_lines it [] = Inr []"
| "expand_lines it (source # rest) =
     bind_e (excluded it source) (\<lambda>ex.
     bind_e (if ex then Inr []
             else bind_e (fmts it [''connect_user'', ''connect_host'']) (\<lambda>uh.
               Inr [conf_backup_line (uh ! 0) (uh ! 1) source
                      (if source = ''/opt/sysadmws'' then tab else [])
                      (if source = ''/opt/sysadmws''
                       then ''+rsync_long_args=--exclude=/opt/sysadmws/bulk_log --exclude=log''
                       else [])])) (\<lambda>l.
     bind_e (expand_lines it rest) (\<lambda>ls. Inr (l @ ls))))"

definition is_xtrabackup :: "item \<Rightarrow> bool" where
  "is_xtrabackup it =
     (case it ''mysql_dump_type'' of None \<Rightarrow> False | Some v \<Rightarrow> py_eq v (VStr ''xtrabackup''))"

definition conf_backup_lines :: "item \<Rightarrow> exn + string list" where
  "conf_backup_lines it =
     bind_e (getitem it ''type'') (\<lambda>ty.
       if ty = VStr ''RSYNC_SSH'' then
         bind_e (getitem it ''source'') (\<lambda>src.
         bind_e (expand_key src) (\<lambda>dirs.
           case dirs of
             Some ds \<Rightarrow> expand_lines it ds
           | None \<Rightarrow>
               bind_e (fmts it [''connect_user'', ''connect_host'', ''source'']) (\<lambda>uhs.
                 Inr [conf_backup_line (uhs ! 0) (uhs ! 1) (uhs ! 2) '''' ''''])))
       else if ty = VStr ''MYSQL_SSH'' then
         bind_e (fmts it [''connect_user'', ''connect_host'', ''mysql_dump_dir'']) (\<lambda>uhs.
           Inr [conf_backup_line (uhs ! 0) (uhs ! 1) (uhs ! 2)
                  (if is_xtrabackup it then tab else '''')
                  (if is_xtrabackup it then ''+rsync_long_args=--no-compress'' else '''')])
       else if ty = VStr ''POSTGRESQL_SSH'' then
         bind_e (fmts it [''connect_user'', ''connect_host'', ''postgresql_dump_dir'']) (\<lambda>uhs.
           Inr [conf_backup_line (uhs ! 0) (uhs ! 1) (uhs ! 2) '''' ''''])
       else if ty = VStr ''MONGODB_SSH'' then
         bind_e (fmts it [''connect_user'', ''connect_host'', ''mongodb_dump_dir'']) (\<lambda>uhs.
           Inr [conf_backup_line (uhs ! 0) (uhs ! 1) (uhs ! 2) '''' ''''])
       else Inr [])"

definition ssh_conf :: "item \<Rightarrow> string list \<Rightarrow> exn + string list" where
  "ssh_conf it backup_lines =
     bind_e (conf_head it) (\<lambda>hd_lines.
     bind_e (fmts it [''connect_port'', ''rsync_verbosity_args'', ''rsync_args'']) (\<lambda>vs.
     Inr (hd_lines @
          [''ssh_args'' @ tab @ ssh_args @ '' -p '' @ vs ! 0,
           ''rsync_long_args'' @ tab
             @ ''-az --delete --delete-excluded --numeric-ids --relative '' @ vs ! 1
             @ '' '' @ vs ! 2,
           ''sync_first'' @ tab @ ''1''] @ backup_lines @ [''''])))"

definition native_conf :: "item \<Rightarrow> exn + string list" where
  "native_conf it =
     bind_e (conf_head it) (\<lambda>hd_lines.
     bind_e (fmts it [''rsync_verbosity_args'', ''rsync_args'', ''connect_user'',
                      ''connect_host'', ''connect_port'', ''source'']) (\<lambda>vs.
     Inr (hd_lines @
          [''rsync_long_args'' @ tab
             @ ''-az --delete --delete-excluded --no-owner --no-group --numeric-ids --relative ''
             @ ''--password-file='' @ RSNAPSHOT_PASSWD @ '' '' @ vs ! 0 @ '' '' @ vs ! 1,
           ''sync_first'' @ tab @ ''1'',
           ''backup'' @ tab @ tab @ ''rsync://'' @ vs ! 2 @ ''@'' @ vs ! 3 @ '':'' @ vs ! 4
             @ vs ! 5 @ ''/'' @ tab @ tab @ ''rsnapshot/''])))"

section \<open>Processing one item\<close>

subsection \<open>Local precondition check (lines 239-254)\<close>

text \<open>
  \<^verbatim>\<open>run_cmd(item["before_backup_check"])\<close> hands the value itself to
  \<^verbatim>\<open>subprocess.Popen(..., shell=True)\<close>: a string is the command line, a list is passed
  to the shell as its arguments, anything else is a \<^verbatim>\<open>TypeError\<close>.
\<close>

definition run_cmd_val :: "env \<Rightarrow> site \<Rightarrow> val \<Rightarrow> int prog" where
  "run_cmd_val env st v =
     (case v of
        VStr s \<Rightarrow> run_cmd env st (Shell s)
      | VList xs \<Rightarrow> run_cmd env st (Script ''bash -c'' xs)
      | _ \<Rightarrow> lift (Inl TypeError))"

definition before_backup_check :: "env \<Rightarrow> item \<Rightarrow> unit prog" where
  "before_backup_check env it =
     (case it ''before_backup_check'' of
        None \<Rightarrow> ret ()
      | Some c \<Rightarrow>
          guarded (bnd (run_cmd_val env Before_backup_check c) (\<lambda>retcode.
            if retcode = 0 then ret () else thn incr_errors continue)))"

subsection \<open>Rotation (lines 256-317)\<close>

definition rsnapshot_command :: "mode \<Rightarrow> string option" where
  "rsnapshot_command m =
     (case m of
        Sync \<Rightarrow> None
      | Rotate_hourly \<Rightarrow> Some ''hourly''
      | Rotate_daily \<Rightarrow> Some ''daily''
      | Rotate_weekly \<Rightarrow> Some ''weekly''
      | Rotate_monthly \<Rightarrow> Some ''monthly'')"

definition mark_path :: "val \<Rightarrow> unit prog" where
  "mark_path p s = (Norm (), s\<lparr>paths_processed := paths_processed s @ [p]\<rparr>)"

definition rotate :: "env \<Rightarrow> string \<Rightarrow> item \<Rightarrow> unit prog" where
  "rotate env command it =
     bnd (lift (getitem it ''path'')) (\<lambda>p s.
       if py_in_list p (paths_processed s) then continue s
       else thn (mark_path p)
           (thn (write_conf (rotation_conf it))
                (guarded (bnd (run_cmd env (Rsnapshot_rotate p)
                                 (Shell (''rsnapshot -c '' @ RSNAPSHOT_CONF @ '' '' @ command)))
                   (\<lambda>retcode. if retcode = 0 then ret () else incr_errors)))) s)"

subsection \<open>Sync over SSH (lines 322-921)\<close>

fun split_on :: "char \<Rightarrow> string \<Rightarrow> string list" where
  "split_on c [] = [[]]"
| "split_on c (x # xs) =
     (if x = c then [] # split_on c xs
      else (case split_on c xs of w # ws \<Rightarrow> (x # w) # ws | [] \<Rightarrow> [[x]]))"

text \<open>\<^verbatim>\<open>":" in item["connect"]\<close> and \<^verbatim>\<open>item["connect"].split(":")\<close>.\<close>

definition has_colon :: "val \<Rightarrow> exn + bool" where
  "has_colon v =
     (case v of
        VStr s \<Rightarrow> Inr (CHR '':'' \<in> set s)
      | VList xs \<Rightarrow> Inr ('':'' \<in> set xs)
      | _ \<Rightarrow> Inl TypeError)"

definition split_colon :: "val \<Rightarrow> exn + string list" where
  "split_colon v = (case v of VStr s \<Rightarrow> Inr (split_on CHR '':'' s) | _ \<Rightarrow> Inl AttributeError)"

definition derive_connect :: "int \<Rightarrow> item \<Rightarrow> exn + item" where
  "derive_connect default_port it =
     bind_e (getitem it ''connect'') (\<lambda>c.
     bind_e (has_colon c) (\<lambda>colon.
       if colon then
         bind_e (split_colon c) (\<lambda>parts.
           Inr (it(''connect_host'' \<mapsto> VStr (parts ! 0), ''connect_port'' \<mapsto> VStr (parts ! 1))))
       else Inr (it(''connect_host'' \<mapsto> c, ''connect_port'' \<mapsto> VInt default_port))))"

definition ssh_remote :: "item \<Rightarrow> string \<Rightarrow> exn + cmd" where
  "ssh_remote it c =
     bind_e (fmts it [''connect_port'', ''connect_user'', ''connect_host'']) (\<lambda>v.
       Inr (Shell (''ssh '' @ ssh_args @ '' -p '' @ v ! 0 @ '' '' @ v ! 1 @ ''@'' @ v ! 2
                   @ '' '' @ sq @ c @ sq)))"

definition ssh_check :: "env \<Rightarrow> item \<Rightarrow> unit prog" where
  "ssh_check env it =
     guarded
       (bnd (lift (ssh_remote it ''hostname'')) (\<lambda>c.
        bnd (run_cmd env Ssh_check c) (\<lambda>retcode.
          if retcode = 0 then ret ()
          else
            bnd (lift (getitem it ''host'')) (\<lambda>h.
              if py_eq h (VStr (self_hostname env)) then
                thn (guarded (bnd (run_cmd env Loopback_script (Script ''loopback_authorize'' []))
                       (\<lambda>retcode. if retcode = 0 then ret () else thn incr_errors continue)))
                    (guarded (bnd (lift (ssh_remote it ''hostname'')) (\<lambda>c.
                              bnd (run_cmd env Ssh_recheck c) (\<lambda>retcode.
                                if retcode = 0 then ret () else thn incr_errors continue))))
              else thn incr_errors continue))))"

text \<open>\<^verbatim>\<open>stdout.lstrip().rstrip()\<close>: the characters Python counts as whitespace.\<close>

definition is_space :: "char \<Rightarrow> bool" where
  "is_space c =
     (let n = (of_char c :: nat)
      in (9 \<le> n \<and> n \<le> 13) \<or> (28 \<le> n \<and> n \<le> 32) \<or> n = 133 \<or> n = 160)"

definition py_strip :: "string \<Rightarrow> string" where
  "py_strip s = rev (dropWhile is_space (rev (dropWhile is_space s)))"

text \<open>
  Lines 399-418. The test of \<^verbatim>\<open>item["validate_hostname"]\<close> guards the log line only;
  the \<^verbatim>\<open>try\<close> that queries and compares the hostname follows it at the same
  indentation.
\<close>

definition validate_hostname :: "env \<Rightarrow> item \<Rightarrow> unit prog" where
  "validate_hostname env it =
     bnd (lift (getitem it ''validate_hostname'')) (\<lambda>requested.
     guarded
       (bnd (lift (ssh_remote it ''hostname'')) (\<lambda>c.
        bnd (run_cmd_pipe env Hostname_query c) (\<lambda>(retcode, stdout).
          if retcode = 0 then
            bnd (lift (getitem it ''host'')) (\<lambda>h.
              if py_eq (VStr (py_strip stdout)) h then ret ()
              else thn incr_errors continue)
          else thn incr_errors continue))))"

definition exec_hook :: "env \<Rightarrow> site \<Rightarrow> string \<Rightarrow> item \<Rightarrow> unit prog" where
  "exec_hook env st k it =
     (case it k of
        None \<Rightarrow> ret ()
      | Some c \<Rightarrow>
          guarded (bnd (lift (ssh_remote it (py_str c))) (\<lambda>t.
                   bnd (run_cmd env st t) (\<lambda>retcode.
                     if retcode = 0 then ret () else incr_errors))))"

subsection \<open>Remote dumps (lines 435-791)\<close>

definition py_iter :: "val \<Rightarrow> exn + string list" where
  "py_iter v =
     (case v of
        VList xs \<Rightarrow> Inr xs
      | VStr s \<Rightarrow> Inr (map (\<lambda>c. [c]) s)
      | _ \<Rightarrow> Inl TypeError)"

definition grep_db_filter :: "item \<Rightarrow> exn + string" where
  "grep_db_filter it =
     (case it ''exclude'' of
        None \<Rightarrow> Inr []
      | Some e \<Rightarrow>
          bind_e (py_iter e) (\<lambda>xs. Inr (''| grep -v'' @ concat (map (\<lambda>d. '' -e '' @ d) xs))))"

definition databases_exclude :: "item \<Rightarrow> exn + string" where
  "databases_exclude it =
     (case it ''exclude'' of
        None \<Rightarrow> Inr []
      | Some e \<Rightarrow>
          bind_e (py_iter e) (\<lambda>xs. Inr (''--databases-exclude='' @ dq @ join '' '' xs @ dq)))"

datatype arg = Key string | Lit string

fun fmt_args :: "item \<Rightarrow> arg list \<Rightarrow> exn + string list" where
  "fmt_args it [] = Inr []"
| "fmt_args it (Lit s # as) = bind_e (fmt_args it as) (\<lambda>vs. Inr (s # vs))"
| "fmt_args it (Key k # as) =
     bind_e (getitem it k) (\<lambda>v. bind_e (fmt_args it as) (\<lambda>vs. Inr (py_str v # vs)))"

definition mmin :: "item \<Rightarrow> string" where
  "mmin it = (if ''retain_hourly'' \<in> dom it then ''59'' else ''720'')"

text \<open>
  A dump script: the inner part \<^verbatim>\<open>script_dump_part\<close> is formatted first, then the
  outer script with the SSH target, the dump directory and the expiry.
\<close>

definition mk_script :: "string \<Rightarrow> item \<Rightarrow> string \<Rightarrow> arg list \<Rightarrow> exn + cmd" where
  "mk_script name it dir_key part =
     bind_e (fmt_args it part) (\<lambda>inner.
     bind_e (fmts it [''connect_port'', ''connect_user'', ''connect_host'', dir_key]) (\<lambda>outer.
       Inr (Script name (ssh_args # outer @ [mmin it] @ inner))))"

definition flag_unless :: "item \<Rightarrow> string \<Rightarrow> string \<Rightarrow> exn + string" where
  "flag_unless it k flag =
     bind_e (getitem it k) (\<lambda>v. Inr (if py_truthy v then [] else flag))"

definition dump_script :: "item \<Rightarrow> val \<Rightarrow> string \<Rightarrow> exn + cmd" where
  "dump_script it ty db_filter =
     (if ty = VStr ''MYSQL_SSH'' then
        (if is_xtrabackup it then
           bind_e (databases_exclude it) (\<lambda>dbx.
           bind_e (getitem it ''source'') (\<lambda>src.
             if py_eq src (VStr ''ALL'') then
               mk_script ''mysql_xtrabackup_all'' it ''mysql_dump_dir''
                 [Key ''xtrabackup_throttle'', Key ''xtrabackup_parallel'',
                  Key ''xtrabackup_compress_threads'', Key ''mysql_dump_dir'', Lit dbx,
                  Key ''xtrabackup_args'']
             else
               mk_script ''mysql_xtrabackup_db'' it ''mysql_dump_dir''
                 [Key ''xtrabackup_throttle'', Key ''xtrabackup_parallel'',
                  Key ''xtrabackup_compress_threads'', Key ''mysql_dump_dir'', Key ''source'',
                  Key ''xtrabackup_args'']))
         else
           bind_e (getitem it ''source'') (\<lambda>src.
           bind_e (flag_unless it ''mysql_noevents'' ''--events'') (\<lambda>events.
             if py_eq src (VStr ''ALL'') then
               mk_script ''mysqldump_all'' it ''mysql_dump_dir''
                 [Key ''mysql_dump_dir'', Lit events, Key ''mysqldump_args'', Lit db_filter]
             else
               mk_script ''mysqldump_db'' it ''mysql_dump_dir''
                 [Key ''mysql_dump_dir'', Lit events, Key ''mysqldump_args'', Lit db_filter,
                  Key ''source''])))
      else if ty = VStr ''POSTGRESQL_SSH'' then
        bind_e (getitem it ''source'') (\<lambda>src.
        bind_e (flag_unless it ''postgresql_noclean'' ''--clean'') (\<lambda>clean.
          if py_eq src (VStr ''ALL'') then
            mk_script ''pg_dump_all'' it ''postgresql_dump_dir''
              [Key ''postgresql_dump_dir'', Lit clean, Key ''pg_dump_args'', Lit db_filter]
          else
            mk_script ''pg_dump_db'' it ''postgresql_dump_dir''
              [Key ''postgresql_dump_dir'', Lit clean, Key ''pg_dump_args'', Lit db_filter,
               Key ''source'']))
      else
        bind_e (getitem it ''source'') (\<lambda>src.
          if py_eq src (VStr ''ALL'') then
            mk_script ''mongodump_all'' it ''mongodb_dump_dir''
              [Key ''mongodb_dump_dir'', Key ''mongo_args'', Lit db_filter]
          else
            mk_script ''mongodump_db'' it ''mongodb_dump_dir''
              [Key ''mongodb_dump_dir'', Key ''mongo_args'', Lit db_filter, Key ''source'']))"

definition remove_partial_script :: "item \<Rightarrow> val \<Rightarrow> exn + cmd" where
  "remove_partial_script it ty =
     bind_e (fmts it [''path'', if ty = VStr ''MYSQL_SSH'' then ''mysql_dump_dir''
                                else if ty = VStr ''POSTGRESQL_SSH'' then ''postgresql_dump_dir''
                                else ''mongodb_dump_dir'']) (\<lambda>v.
       Inr (Shell (''#!/bin/bash'' @ nl @ ''set -e'' @ nl @
         (if ty = VStr ''MYSQL_SSH'' \<and> is_xtrabackup it then ''#empty''
          else ''rm -f '' @ v ! 0 @ ''/.sync/rsnapshot'' @ v ! 1 @
               (if ty = VStr ''MONGODB_SSH'' then ''/.*.tar.gz.*'' else ''/.*.gz.*'')) @ nl)))"

definition db_dumps :: "env \<Rightarrow> item \<Rightarrow> unit prog" where
  "db_dumps env it =
     bnd (lift (getitem it ''type'')) (\<lambda>ty.
       if ty = VStr ''MYSQL_SSH'' \<or> ty = VStr ''POSTGRESQL_SSH'' \<or> ty = VStr ''MONGODB_SSH'' then
         bnd (lift (grep_db_filter it)) (\<lambda>db_filter.
         bnd (lift (dump_script it ty db_filter)) (\<lambda>script.
         thn (guarded (bnd (run_cmd env Remote_dump script) (\<lambda>retcode.
                if retcode = 0 then ret () else thn incr_errors continue)))
        (bnd (lift (remove_partial_script it ty)) (\<lambda>script.
         guarded (bnd (run_cmd env Remove_partial_dumps script) (\<lambda>retcode.
           if retcode = 0 then ret () else incr_errors))))))
       else ret ())"

subsection \<open>Configuration, transfer, hooks\<close>

definition ssh_transfer :: "env \<Rightarrow> item \<Rightarrow> unit prog" where
  "ssh_transfer env it =
     bnd (lift (conf_backup_lines it)) (\<lambda>backup_lines.
     thn (write_conf (ssh_conf it backup_lines))
         (guarded (bnd (run_cmd env Rsnapshot_sync
                          (Shell (''rsnapshot -c '' @ RSNAPSHOT_CONF @ '' sync'')))
            (\<lambda>retcode. if retcode = 0 then ret () else incr_errors))))"

definition ssh_after_validation :: "env \<Rightarrow> item \<Rightarrow> unit prog" where
  "ssh_after_validation env it =
     thn (exec_hook env Exec_before_rsync ''exec_before_rsync'' it)
    (thn (db_dumps env it)
    (thn (ssh_transfer env it)
         (exec_hook env Exec_after_rsync ''exec_after_rsync'' it)))"

definition sync_ssh_body :: "env \<Rightarrow> item \<Rightarrow> unit prog" where
  "sync_ssh_body env it =
     thn (ssh_check env it)
    (thn (validate_hostname env it)
         (ssh_after_validation env it))"

definition sync_ssh :: "env \<Rightarrow> item \<Rightarrow> unit prog" where
  "sync_ssh env it = bnd (lift (derive_connect 22 it)) (sync_ssh_body env)"

subsection \<open>Sync over native rsync (lines 923-1021)\<close>

text \<open>
  \<^verbatim>\<open>file_to_write.write(item["connect_password"])\<close> on the file just opened for
  writing: a value that is not a string raises and leaves the file empty.
\<close>

definition write_passwd :: "val \<Rightarrow> unit prog" where
  "write_passwd v s =
     (case v of
        VStr pw \<Rightarrow> (Norm (), s\<lparr>passwd_file := Some pw\<rparr>)
      | _ \<Rightarrow> (Raise TypeError, s\<lparr>passwd_file := Some []\<rparr>))"

definition remove_passwd :: "unit prog" where
  "remove_passwd s = (Norm (), s\<lparr>passwd_file := None\<rparr>)"

definition native_txt_check :: "env \<Rightarrow> item \<Rightarrow> unit prog" where
  "native_txt_check env it =
     bnd (lift (getitem it ''native_txt_check'')) (\<lambda>requested.
       if py_truthy requested then
         guarded
           (bnd (lift (fmts it [''connect_user'', ''connect_host'', ''connect_port'', ''source''])) (\<lambda>v.
            bnd (run_cmd env Native_txt_check
                   (Shell (''rsync --password-file='' @ RSNAPSHOT_PASSWD @ '' rsync://'' @ v ! 0
                           @ ''@'' @ v ! 1 @ '':'' @ v ! 2 @ v ! 3 @ ''/ | grep .backup'')))
              (\<lambda>retcode. if retcode = 0 then ret () else thn incr_errors continue)))
       else ret ())"

definition native_transfer :: "env \<Rightarrow> item \<Rightarrow> unit prog" where
  "native_transfer env it =
     thn (write_conf (native_conf it))
         (guarded
            (bnd (lift (getitem it ''native_10h_limit'')) (\<lambda>limit.
             bnd (run_cmd env Native_rsnapshot_sync
                    (Shell ((if py_truthy limit then ''timeout --preserve-status -k 60 10h '' else [])
                            @ ''rsnapshot -c '' @ RSNAPSHOT_CONF @ '' sync'')))
               (\<lambda>retcode. if retcode = 0 then ret () else incr_errors))))"

definition sync_native_body :: "env \<Rightarrow> item \<Rightarrow> unit prog" where
  "sync_native_body env it =
     (case it ''connect_password'' of
        None \<Rightarrow> thn incr_errors continue
      | Some pw \<Rightarrow>
          thn (write_passwd pw)
         (thn (native_txt_check env it)
         (thn (native_transfer env it)
              remove_passwd)))"

definition sync_native :: "env \<Rightarrow> item \<Rightarrow> unit prog" where
  "sync_native env it = bnd (lift (derive_connect 873 it)) (sync_native_body env)"

definition is_ssh_type :: "val \<Rightarrow> bool" where
  "is_ssh_type ty =
     (ty = VStr ''RSYNC_SSH'' \<or> ty = VStr ''MYSQL_SSH'' \<or> ty = VStr ''POSTGRESQL_SSH''
      \<or> ty = VStr ''MONGODB_SSH'')"

definition sync :: "env \<Rightarrow> item \<Rightarrow> unit prog" where
  "sync env it =
     bnd (lift (getitem it ''type'')) (\<lambda>ty.
       if is_ssh_type ty then sync_ssh env it
       else if ty = VStr ''RSYNC_NATIVE'' then sync_native env it
       else incr_errors)"

subsection \<open>The body of the per-item \<^verbatim>\<open>try\<close> (lines 177-1026)\<close>

definition process_item :: "env \<Rightarrow> args \<Rightarrow> item \<Rightarrow> unit prog" where
  "process_item env a it0 =
     bnd (lift (getitem it0 ''number'')) (\<lambda>number.
       let it = apply_defaults (debug a) it0 in
       thn (before_backup_check env it)
      (thn (case rsnapshot_command (mode a) of
              Some command \<Rightarrow> rotate env command it
            | None \<Rightarrow> ret ())
           (if mode a = Sync then sync env it else ret ())))"

section \<open>The loop over the items and the run (lines 128-1048)\<close>

text \<open>
  The enabled test and the two filters stand before the \<^verbatim>\<open>try\<close> of the item: a key
  they miss ends the loop.
\<close>

definition select_item :: "args \<Rightarrow> item \<Rightarrow> exn + bool" where
  "select_item a it =
     bind_e (getitem it ''enabled'') (\<lambda>en.
       if \<not> py_truthy en then Inr False
       else
         bind_e (case item_number a of
                   None \<Rightarrow> Inr True
                 | Some n \<Rightarrow> bind_e (getitem it ''number'') (\<lambda>v. Inr (py_str v = n))) (\<lambda>keep.
           if \<not> keep then Inr False
           else (case host a of
                   None \<Rightarrow> Inr True
                 | Some h \<Rightarrow> bind_e (getitem it ''host'') (\<lambda>v. Inr (py_eq v (VStr h))))))"

definition item_step :: "env \<Rightarrow> args \<Rightarrow> item \<Rightarrow> run_state \<Rightarrow> exn option \<times> run_state" where
  "item_step env a it s =
     (case select_item a it of
        Inl e \<Rightarrow> (Some e, s)
      | Inr False \<Rightarrow> (None, s)
      | Inr True \<Rightarrow>
          (case process_item env a it s of
             (Raise e, s') \<Rightarrow> (None, s'\<lparr>errors := errors s' + 1\<rparr>)
           | (r, s') \<Rightarrow> (None, s')))"

fun run_items :: "env \<Rightarrow> args \<Rightarrow> item list \<Rightarrow> run_state \<Rightarrow> exn option \<times> run_state" where
  "run_items env a [] s = (None, s)"
| "run_items env a (it # its) s =
     (case item_step env a it s of
        (Some e, s') \<Rightarrow> (Some e, s')
      | (None, s') \<Rightarrow> run_items env a its s')"

record config =
  cfg_enabled :: "val option"
  cfg_items :: "item list option"

text \<open>
  The state the loop starts from: \<^verbatim>\<open>errors = 0\<close>, \<^verbatim>\<open>paths_processed = []\<close>, the two
  files as the previous run left them, no command run yet.
\<close>

definition init_state :: "string option \<Rightarrow> string option \<Rightarrow> run_state" where
  "init_state conf passwd =
     \<lparr>errors = 0, paths_processed = [], conf_file = conf, passwd_file = passwd, trace = []\<rparr>"

text \<open>
  The run, from loading the configuration to the exit code. \<^verbatim>\<open>sys.exit(0)\<close> raises
  \<^verbatim>\<open>SystemExit\<close>, which \<^verbatim>\<open>except Exception\<close> does not catch; every other exception
  reaches \<^verbatim>\<open>sys.exit(1)\<close>. \<open>loaded\<close> is the outcome of reading the YAML file,
  \<open>locked\<close> tells whether another instance holds the lock file, in which case
  \<^verbatim>\<open>lock.acquire(timeout=0)\<close> raises at once; \<open>conf\<close> and \<open>passwd\<close> are the two
  generated files as found on disk. The run with no arguments (usage, exit code 1) and
  the setting up of logging are not part of the model.
\<close>

definition main ::
  "env \<Rightarrow> args \<Rightarrow> exn + config \<Rightarrow> bool \<Rightarrow> string option \<Rightarrow> string option \<Rightarrow> int \<times> run_state"
  where
  "main env a loaded locked conf passwd =
     (case loaded of
        Inl e \<Rightarrow> (1, init_state conf passwd)
      | Inr cfg \<Rightarrow>
          (case cfg_enabled cfg of
             None \<Rightarrow> (1, init_state conf passwd)
           | Some en \<Rightarrow>
               if \<not> py_eq en (VBool True) then (0, init_state conf passwd)
               else if locked then (1, init_state conf passwd)
               else
                 (case cfg_items cfg of
                    None \<Rightarrow> (1, init_state conf passwd)
                  | Some its \<Rightarrow>
                      (case run_items env a its (init_state conf passwd) of
                         (Some e, s') \<Rightarrow> (1, s')
                       | (None, s') \<Rightarrow> if errors s' > 0 then (1, s') else (0, s')))))"

section \<open>Observations on a run\<close>

text \<open>
  The paths the rotation tool was started on, read off the recorded commands, and how
  often it was started on a given path (compared as Python compares values).
\<close>

fun rotated_path :: "call \<Rightarrow> val list" where
  "rotated_path (Rsnapshot_rotate p, c) = [p]"
| "rotated_path (st, c) = []"

definition rotations :: "call list \<Rightarrow> val list" where
  "rotations tr = concat (map rotated_path tr)"


text \<open>
  What the rotated-paths list is for: the paths the tool was started on are the paths
  marked as processed, and none is marked twice.
\<close>

definition rotation_inv :: "run_state \<Rightarrow> bool" where
  "rotation_inv s =
     (map norm_val (rotations (trace s)) = map norm_val (paths_processed s)
      \<and> distinct (map norm_val (paths_processed s)))"


text \<open>A statement that never lowers the error counter.\<close>

definition grows :: "'a prog \<Rightarrow> bool" where
  "grows m = (\<forall>s. errors s \<le> errors (snd (m s)))"

section \<open>Example inputs\<close>

definition env_db1 :: env where
  "env_db1 = \<lparr>respond = (\<lambda>n c. Exited 0 ('' db1 '' @ nl)), self_hostname = ''backup1''\<rparr>"

definition env_db2 :: env where
  "env_db2 = \<lparr>respond = (\<lambda>n c. Exited 0 ''db2''), self_hostname = ''backup1''\<rparr>"

definition env_fail :: env where
  "env_fail = \<lparr>respond = (\<lambda>n c. Exited 1 []), self_hostname = ''backup1''\<rparr>"

definition args_sync :: args where
  "args_sync = \<lparr>debug = False, item_number = None, host = None, mode = Sync\<rparr>"

definition args_daily :: args where
  "args_daily = \<lparr>debug = False, item_number = None, host = None, mode = Rotate_daily\<rparr>"

definition item_db1 :: item where
  "item_db1 =
     [''number'' \<mapsto> VInt 1, ''enabled'' \<mapsto> VBool True, ''host'' \<mapsto> VStr ''db1'',
      ''type'' \<mapsto> VStr ''RSYNC_SSH'', ''path'' \<mapsto> VStr ''/backup/db1'',
      ''connect'' \<mapsto> VStr ''10.0.0.1'', ''source'' \<mapsto> VStr ''/etc'',
      ''validate_hostname'' \<mapsto> VBool False]"

definition item_native :: item where
  "item_native =
     [''number'' \<mapsto> VInt 2, ''enabled'' \<mapsto> VBool True, ''host'' \<mapsto> VStr ''win1'',
      ''type'' \<mapsto> VStr ''RSYNC_NATIVE'', ''path'' \<mapsto> VStr ''/backup/win1'',
      ''connect'' \<mapsto> VStr ''10.0.0.2'', ''source'' \<mapsto> VStr ''/data'',
      ''connect_password'' \<mapsto> VStr ''secret'', ''native_txt_check'' \<mapsto> VBool True]"

definition item_checked :: item where
  "item_checked =
     [''number'' \<mapsto> VInt 3, ''enabled'' \<mapsto> VBool True, ''host'' \<mapsto> VStr ''db1'',
      ''type'' \<mapsto> VStr ''RSYNC_SSH'', ''path'' \<mapsto> VStr ''/backup/db1'',
      ''connect'' \<mapsto> VStr ''10.0.0.1'', ''source'' \<mapsto> VStr ''/etc'',
      ''before_backup_check'' \<mapsto> VStr ''mountpoint -q /backup'']"

definition item_untyped :: item where
  "item_untyped =
     [''number'' \<mapsto> VInt 4, ''enabled'' \<mapsto> VBool True, ''host'' \<mapsto> VStr ''db1'',
      ''path'' \<mapsto> VStr ''/backup/db1'', ''connect'' \<mapsto> VStr ''10.0.0.1'',
      ''source'' \<mapsto> VStr ''/etc'']"

definition item_noen :: item where
  "item_noen =
     [''number'' \<mapsto> VInt 5, ''host'' \<mapsto> VStr ''db1'', ''type'' \<mapsto> VStr ''RSYNC_SSH'',
      ''path'' \<mapsto> VStr ''/backup/db1'', ''connect'' \<mapsto> VStr ''10.0.0.1'',
      ''source'' \<mapsto> VStr ''/etc'']"

definition item_centos :: item where
  "item_centos =
     [''number'' \<mapsto> VInt 6, ''enabled'' \<mapsto> VBool True, ''host'' \<mapsto> VStr ''db1'',
      ''type'' \<mapsto> VStr ''RSYNC_SSH'', ''path'' \<mapsto> VStr ''/backup/db1'',
      ''connect'' \<mapsto> VStr ''10.0.0.1'', ''source'' \<mapsto> VStr ''CENTOS'',
      ''exclude'' \<mapsto> VList [''/home'', ''/opt/sysadmws'']]"

definition ssh_hostname_cmd :: cmd where
  "ssh_hostname_cmd =
     Shell (''ssh -o BatchMode=yes -o StrictHostKeyChecking=no -p 22 root@10.0.0.1 ''
            @ sq @ ''hostname'' @ sq)"

section \<open>Evaluation rules\<close>

lemmas value_defs = getitem_def bind_e_def tab_def nl_def sq_def dq_def str_of_int_def
  str_of_nat.simps py_eq_def py_in_list_def py_repr_def quote_for_def py_escape_def
  printable_def hex_digit_def

lemmas defaults_defs = apply_defaults_def set_defaults_def set_default_def set_verbosity_def
  defaults_before_def defaults_after_def

lemmas conf_defs = conf_head_def rotation_conf_def retain_hourly_line_def ssh_conf_def
  native_conf_def conf_backup_line_def conf_backup_lines_def data_expand_def expand_key_def
  str_in_def excluded_def is_xtrabackup_def ssh_args_def RSNAPSHOT_CONF_def RSNAPSHOT_PASSWD_def

section \<open>Item defaults\<close>

lemma set_defaults_map_add: "set_defaults kvs it = map_of kvs ++ it"
proof (induction kvs arbitrary: it)
  case Nil
  then show ?case by (simp add: set_defaults_def)
next
  case (Cons kv kvs)
  obtain k v where kv: "kv = (k, v)" by (cases kv)
  have "set_defaults (kv # kvs) it = set_defaults kvs (set_default k v it)"
    by (simp add: set_defaults_def kv)
  also have "\<dots> = map_of kvs ++ set_default k v it" by (rule Cons.IH)
  also have "\<dots> = map_of (kv # kvs) ++ it"
    by (rule ext) (auto simp: kv set_default_def map_add_def dom_def split: option.splits)
  finally show ?case .
qed

lemma set_verbosity_map_add:
  "set_verbosity dbg it = it ++ set_verbosity dbg Map.empty"
  by (rule ext) (simp add: set_verbosity_def map_add_def)

lemma apply_defaults_map_add:
  "apply_defaults dbg it =
     map_of defaults_after ++ ((map_of defaults_before ++ it) ++ set_verbosity dbg Map.empty)"
  by (simp add: apply_defaults_def set_defaults_map_add set_verbosity_map_add [of dbg "_ ++ _"])

lemma map_add_twice:
  "A ++ ((B ++ (A ++ ((B ++ m) ++ V))) ++ V) = A ++ ((B ++ m) ++ (V :: 'a \<rightharpoonup> 'b))"
  by (rule ext) (simp add: map_add_def split: option.splits)

lemma apply_defaults_keeps:
  assumes "it k = Some v" and "k \<noteq> ''verbosity_level''" and "k \<noteq> ''rsync_verbosity_args''"
  shows "apply_defaults dbg it k = Some v"
  using assms
  by (simp add: apply_defaults_map_add map_add_def set_verbosity_def split: option.splits)

lemma defaulted_keys_not_verbosity:
  assumes "k \<in> fst ` set (defaults_before @ defaults_after)"
  shows "k \<noteq> ''verbosity_level'' \<and> k \<noteq> ''rsync_verbosity_args''"
  using assms by (auto simp: defaults_before_def defaults_after_def)

text \<open>
  Claim C9. Applying the item defaults twice under the same debug flag gives the same
  item as applying them once, and for every key the step defaults (the keys of the two
  tables) a value the item already has is kept, whatever it is, so in particular
  \<^verbatim>\<open>false\<close> and \<^verbatim>\<open>0\<close>.
\<close>

theorem apply_defaults_idempotent:
  "apply_defaults dbg (apply_defaults dbg it) = apply_defaults dbg it
   \<and> (\<forall>k v. k \<in> fst ` set (defaults_before @ defaults_after) \<longrightarrow> it k = Some v
          \<longrightarrow> apply_defaults dbg it k = Some v)"
proof
  show "apply_defaults dbg (apply_defaults dbg it) = apply_defaults dbg it"
    by (simp only: apply_defaults_map_add map_add_twice)
next
  show "\<forall>k v. k \<in> fst ` set (defaults_before @ defaults_after) \<longrightarrow> it k = Some v
          \<longrightarrow> apply_defaults dbg it k = Some v"
    using apply_defaults_keeps defaulted_keys_not_verbosity by blast
qed

theorem apply_defaults_idempotent_witness:
  "apply_defaults False
     (apply_defaults False [''retain_daily'' \<mapsto> VInt 0, ''validate_hostname'' \<mapsto> VBool False])
     = apply_defaults False [''retain_daily'' \<mapsto> VInt 0, ''validate_hostname'' \<mapsto> VBool False]
   \<and> apply_defaults False [''retain_daily'' \<mapsto> VInt 0, ''validate_hostname'' \<mapsto> VBool False]
        ''retain_daily'' = Some (VInt 0)
   \<and> apply_defaults False [''retain_daily'' \<mapsto> VInt 0, ''validate_hostname'' \<mapsto> VBool False]
        ''validate_hostname'' = Some (VBool False)"
  using apply_defaults_idempotent
    [of False "[''retain_daily'' \<mapsto> VInt 0, ''validate_hostname'' \<mapsto> VBool False]"]
  by (simp add: defaults_before_def defaults_after_def)

section \<open>Lines common to the three templates\<close>

lemma conf_head_lines:
  assumes "conf_head it = Inr hs"
  shows "\<exists>d w m. it ''retain_daily'' = Some d \<and> it ''retain_weekly'' = Some w
           \<and> it ''retain_monthly'' = Some m \<and> length hs = 15
           \<and> hs ! 7 = retain_hourly_line it
           \<and> hs ! 8 = ''retain'' @ tab @ tab @ ''daily'' @ tab @ py_str d
           \<and> hs ! 9 = ''retain'' @ tab @ tab @ ''weekly'' @ tab @ py_str w
           \<and> hs ! 10 = ''retain'' @ tab @ tab @ ''monthly'' @ tab @ py_str m"
  using assms
  by (auto simp: conf_head_def bind_e_def getitem_def split: option.splits sum.splits)

lemma emitted_head:
  assumes "rotation_conf it = Inr ls \<or> ssh_conf it bl = Inr ls \<or> native_conf it = Inr ls"
  shows "\<exists>hs rest. conf_head it = Inr hs \<and> ls = hs @ rest"
  using assms
  by (auto simp: rotation_conf_def ssh_conf_def native_conf_def bind_e_def split: sum.splits)

section \<open>Backup lines\<close>

lemma expand_lines_list:
  assumes "it ''connect_user'' = Some u" and "it ''connect_host'' = Some h"
    and "it ''exclude'' = None \<or> (\<exists>ex. it ''exclude'' = Some (VList ex))"
  shows "expand_lines it ds =
     Inr (map (\<lambda>d. conf_backup_line (py_str u) (py_str h) d
                   (if d = ''/opt/sysadmws'' then tab else [])
                   (if d = ''/opt/sysadmws''
                    then ''+rsync_long_args=--exclude=/opt/sysadmws/bulk_log --exclude=log''
                    else []))
              (filter (\<lambda>d. d \<notin> (case it ''exclude'' of Some (VList ex) \<Rightarrow> set ex | _ \<Rightarrow> {}))
                 ds))"
  using assms
  by (induction ds) (auto simp: excluded_def str_in_def bind_e_def getitem_def)

text \<open>
  Claim C8 fails as stated: the table of canonical directories is keyed by the OS family
  (\<^verbatim>\<open>UBUNTU\<close>, \<^verbatim>\<open>DEBIAN\<close>, \<^verbatim>\<open>CENTOS\<close>), not by \<^verbatim>\<open>ALL\<close>. An \<^verbatim>\<open>RSYNC_SSH\<close> item
  whose \<^verbatim>\<open>source\<close> is \<^verbatim>\<open>ALL\<close> gets one backup line, for the path \<^verbatim>\<open>ALL\<close>.
\<close>

theorem backup_lines_ALL_counterexample:
  "conf_backup_lines [''type'' \<mapsto> VStr ''RSYNC_SSH'', ''source'' \<mapsto> VStr ''ALL'',
                      ''connect_user'' \<mapsto> VStr ''root'', ''connect_host'' \<mapsto> VStr ''h'']
     = Inr [''backup'' @ tab @ tab @ ''root@h:ALL/'' @ tab @ ''rsnapshot/'']"
  by (simp add: value_defs conf_defs)

section \<open>Host and port of the connection\<close>

lemma split_on_nonempty: "split_on c s \<noteq> []"
  by (induction s) (auto split: list.splits)

lemma split_on_first: "split_on c s ! 0 = takeWhile (\<lambda>x. x \<noteq> c) s"
  by (induction s) (auto split: list.splits simp: split_on_nonempty)

lemma split_on_second:
  "c \<in> set s \<Longrightarrow>
   split_on c s ! Suc 0 = takeWhile (\<lambda>x. x \<noteq> c) (tl (dropWhile (\<lambda>x. x \<noteq> c) s))"
proof (induction s)
  case Nil
  then show ?case by simp
next
  case (Cons x xs)
  show ?case
  proof (cases "x = c")
    case True
    then show ?thesis using split_on_first [of c xs] by simp
  next
    case False
    with Cons show ?thesis by (auto split: list.splits simp: split_on_nonempty)
  qed
qed

lemma derive_connect_str:
  assumes "it ''connect'' = Some (VStr c)"
  shows "derive_connect p it =
     Inr (if CHR '':'' \<in> set c
          then it(''connect_host'' \<mapsto> VStr (takeWhile (\<lambda>x. x \<noteq> CHR '':'') c),
                  ''connect_port'' \<mapsto>
                    VStr (takeWhile (\<lambda>x. x \<noteq> CHR '':'')
                            (tl (dropWhile (\<lambda>x. x \<noteq> CHR '':'') c))))
          else it(''connect_host'' \<mapsto> VStr c, ''connect_port'' \<mapsto> VInt p))"
  using assms
  by (simp add: derive_connect_def getitem_def bind_e_def has_colon_def split_colon_def
      split_on_first split_on_second)

text \<open>
  Claim C10 fails as stated where \<^verbatim>\<open>connect\<close> has more than one colon:
  \<^verbatim>\<open>split(":")[1]\<close> is the text between the first and the second colon, not all that
  follows the first.
\<close>

theorem connect_port_counterexample:
  "derive_connect 22 [''connect'' \<mapsto> VStr ''a:b:c'']
     = Inr [''connect'' \<mapsto> VStr ''a:b:c'', ''connect_host'' \<mapsto> VStr ''a'',
            ''connect_port'' \<mapsto> VStr ''b'']
   \<and> tl (dropWhile (\<lambda>x. x \<noteq> CHR '':'') ''a:b:c'') = ''b:c''"
  by (simp add: derive_connect_def value_defs has_colon_def split_colon_def)

text \<open>
  Claim C10, amended. In sync mode, for an item whose \<^verbatim>\<open>connect\<close> is a string, the
  SSH pipeline (types \<^verbatim>\<open>RSYNC_SSH\<close>, \<^verbatim>\<open>MYSQL_SSH\<close>, \<^verbatim>\<open>POSTGRESQL_SSH\<close>,
  \<^verbatim>\<open>MONGODB_SSH\<close>) and the native pipeline (\<^verbatim>\<open>RSYNC_NATIVE\<close>) run on the item with
  \<^verbatim>\<open>connect_host\<close> and \<^verbatim>\<open>connect_port\<close> set as follows. Without a colon the host is
  \<^verbatim>\<open>connect\<close> and the port is 22 for SSH and 873 for native rsync. With a colon the
  host is the text before the first colon and the port is the text between the first
  colon and the next one (or the end of the string).
\<close>

theorem connect_host_port:
  assumes "it ''connect'' = Some (VStr c)" and "it ''type'' = Some ty"
  shows "(is_ssh_type ty \<longrightarrow>
            sync env it = sync_ssh_body env
              (if CHR '':'' \<in> set c
               then it(''connect_host'' \<mapsto> VStr (takeWhile (\<lambda>x. x \<noteq> CHR '':'') c),
                       ''connect_port'' \<mapsto>
                         VStr (takeWhile (\<lambda>x. x \<noteq> CHR '':'')
                                 (tl (dropWhile (\<lambda>x. x \<noteq> CHR '':'') c))))
               else it(''connect_host'' \<mapsto> VStr c, ''connect_port'' \<mapsto> VInt 22)))
       \<and> (ty = VStr ''RSYNC_NATIVE'' \<longrightarrow>
            sync env it = sync_native_body env
              (if CHR '':'' \<in> set c
               then it(''connect_host'' \<mapsto> VStr (takeWhile (\<lambda>x. x \<noteq> CHR '':'') c),
                       ''connect_port'' \<mapsto>
                         VStr (takeWhile (\<lambda>x. x \<noteq> CHR '':'')
                                 (tl (dropWhile (\<lambda>x. x \<noteq> CHR '':'') c))))
               else it(''connect_host'' \<mapsto> VStr c, ''connect_port'' \<mapsto> VInt 873)))"
  using assms
  by (auto simp: sync_def sync_ssh_def sync_native_def derive_connect_str getitem_def
      bnd_def lift_def is_ssh_type_def fun_eq_iff)

theorem connect_host_port_witness:
  "sync env_fail [''connect'' \<mapsto> VStr ''10.0.0.1'', ''type'' \<mapsto> VStr ''RSYNC_SSH'']
     = sync_ssh_body env_fail
         [''connect'' \<mapsto> VStr ''10.0.0.1'', ''type'' \<mapsto> VStr ''RSYNC_SSH'',
          ''connect_host'' \<mapsto> VStr ''10.0.0.1'', ''connect_port'' \<mapsto> VInt 22]
   \<and> sync env_fail [''connect'' \<mapsto> VStr ''10.0.0.1:2222'', ''type'' \<mapsto> VStr ''RSYNC_NATIVE'']
     = sync_native_body env_fail
         [''connect'' \<mapsto> VStr ''10.0.0.1:2222'', ''type'' \<mapsto> VStr ''RSYNC_NATIVE'',
          ''connect_host'' \<mapsto> VStr ''10.0.0.1'', ''connect_port'' \<mapsto> VStr ''2222'']"
  using connect_host_port
      [of "[''connect'' \<mapsto> VStr ''10.0.0.1'', ''type'' \<mapsto> VStr ''RSYNC_SSH'']"
          "''10.0.0.1''" "VStr ''RSYNC_SSH''" env_fail]
    connect_host_port
      [of "[''connect'' \<mapsto> VStr ''10.0.0.1:2222'', ''type'' \<mapsto> VStr ''RSYNC_NATIVE'']"
          "''10.0.0.1:2222''" "VStr ''RSYNC_NATIVE''" env_fail]
  by (simp add: is_ssh_type_def)

section \<open>Running the item pipeline on concrete inputs\<close>

lemmas prog_defs = ret_def bnd_def thn_def lift_def continue_def incr_errors_def guarded_def
  run_cmd_pipe_def run_cmd_def write_conf_def

lemmas step_defs = run_cmd_val_def before_backup_check_def rsnapshot_command_def mark_path_def
  rotate_def has_colon_def split_colon_def derive_connect_def ssh_remote_def ssh_check_def
  is_space_def py_strip_def validate_hostname_def exec_hook_def py_iter_def grep_db_filter_def
  databases_exclude_def mmin_def mk_script_def flag_unless_def dump_script_def
  remove_partial_script_def db_dumps_def ssh_transfer_def ssh_after_validation_def
  sync_ssh_body_def sync_ssh_def write_passwd_def remove_passwd_def native_txt_check_def
  native_transfer_def sync_native_body_def sync_native_def is_ssh_type_def sync_def
  process_item_def select_item_def item_step_def init_state_def main_def

lemmas example_defs = env_db1_def env_db2_def env_fail_def args_sync_def args_daily_def
  item_db1_def item_native_def item_checked_def item_untyped_def item_noen_def
  item_centos_def ssh_hostname_cmd_def

text \<open>
  Claim C5 does not hold of the code: the hostname is queried and compared whatever
  \<^verbatim>\<open>validate_hostname\<close> says. Here the item sets \<^verbatim>\<open>validate_hostname: false\<close>, its
  \<^verbatim>\<open>host\<close> is \<^verbatim>\<open>db1\<close> and the remote host answers \<^verbatim>\<open>db2\<close>: the item is skipped with
  one error after the hostname query, and no sync is run.
\<close>

theorem validate_hostname_false_still_compared:
  "process_item env_db2 args_sync item_db1 (init_state None None) =
     (Continue, \<lparr>errors = 1, paths_processed = [], conf_file = None, passwd_file = None,
                 trace = [(Ssh_check, ssh_hostname_cmd), (Hostname_query, ssh_hostname_cmd)]\<rparr>)"
  by (simp add: example_defs Let_def prog_defs step_defs value_defs defaults_defs conf_defs)

text \<open>
  Claim C4 does not hold of the code: when the remote \<^verbatim>\<open>.backup\<close> check of a native
  item fails, the \<^verbatim>\<open>continue\<close> of line 959 leaves the item before line 1021 removes the
  password file. Here every command exits with 1: the item ends with one error and the
  password file still holds the password.
\<close>

theorem passwd_left_after_failed_txt_check:
  "process_item env_fail args_sync item_native (init_state None None) =
     (Continue, \<lparr>errors = 1, paths_processed = [], conf_file = None,
                 passwd_file = Some ''secret'',
                 trace = [(Native_txt_check,
                           Shell (''rsync --password-file=/opt/sysadmws/rsnapshot_backup/rsnapshot.passwd''
                                  @ '' rsync://root@10.0.0.2:873/data/ | grep .backup''))]\<rparr>)"
  by (simp add: example_defs Let_def prog_defs step_defs value_defs defaults_defs conf_defs)

section \<open>Hostname validation\<close>





section \<open>Failures stay inside their item\<close>





section \<open>Exit code\<close>

lemma grows_ret: "grows (ret x)" by (simp add: grows_def ret_def)
lemma grows_lift: "grows (lift r)" by (simp add: grows_def lift_def split: sum.splits)
lemma grows_continue: "grows continue" by (simp add: grows_def continue_def)
lemma grows_incr_errors: "grows incr_errors" by (simp add: grows_def incr_errors_def)
lemma grows_run_cmd_pipe: "grows (run_cmd_pipe env st c)"
  by (simp add: grows_def run_cmd_pipe_def split: cmd_result.splits)
lemma grows_write_conf: "grows (write_conf r)"
  by (simp add: grows_def write_conf_def split: sum.splits)
lemma grows_mark_path: "grows (mark_path p)" by (simp add: grows_def mark_path_def)
lemma grows_write_passwd: "grows (write_passwd v)"
  by (simp add: grows_def write_passwd_def split: val.splits)
lemma grows_remove_passwd: "grows remove_passwd" by (simp add: grows_def remove_passwd_def)

lemma grows_bnd:
  assumes "grows m" and "\<And>x. grows (f x)"
  shows "grows (bnd m f)"
proof -
  have "errors s \<le> errors (snd (bnd m f s))" for s
  proof (cases "m s")
    case (Pair r s1)
    have 1: "errors s \<le> errors s1" using assms(1) Pair by (auto simp: grows_def dest: spec [of _ s])
    show ?thesis
    proof (cases r)
      case (Norm x)
      have "errors s1 \<le> errors (snd (f x s1))" using assms(2) by (simp add: grows_def)
      with 1 Pair Norm show ?thesis by (simp add: bnd_def)
    qed (use 1 Pair in \<open>simp_all add: bnd_def\<close>)
  qed
  then show ?thesis by (simp add: grows_def)
qed

lemma grows_thn: "grows m \<Longrightarrow> grows n \<Longrightarrow> grows (thn m n)"
  by (simp add: thn_def grows_bnd)

lemma grows_guarded: "grows m \<Longrightarrow> grows (guarded m)"
proof -
  assume m: "grows m"
  have "errors s \<le> errors (snd (guarded m s))" for s
    using m by (cases "m s"; cases "fst (m s)") (auto simp: grows_def guarded_def dest: spec [of _ s])
  then show ?thesis by (simp add: grows_def)
qed

lemma grows_run_cmd: "grows (run_cmd env st c)"
  by (auto simp: run_cmd_def intro!: grows_bnd grows_run_cmd_pipe grows_ret)

lemma grows_if_state:
  "grows m \<Longrightarrow> grows n \<Longrightarrow> grows (\<lambda>s. if P s then m s else n s)"
  by (simp add: grows_def)

lemmas grows_intros = grows_ret grows_lift grows_continue grows_incr_errors grows_run_cmd_pipe
  grows_run_cmd grows_write_conf grows_mark_path grows_write_passwd grows_remove_passwd
  grows_bnd grows_thn grows_guarded

lemma grows_run_cmd_val: "grows (run_cmd_val env st v)"
  by (auto simp: run_cmd_val_def intro!: grows_intros split: val.splits)

lemma grows_before_backup_check: "grows (before_backup_check env it)"
  by (auto simp: before_backup_check_def intro!: grows_intros grows_run_cmd_val split: option.splits)

lemma grows_rotate: "grows (rotate env command it)"
  unfolding rotate_def
  by (intro grows_bnd grows_lift grows_if_state grows_continue grows_thn grows_mark_path
      grows_write_conf grows_guarded grows_run_cmd) (auto intro!: grows_intros)

lemma grows_ssh_check: "grows (ssh_check env it)"
  by (auto simp: ssh_check_def intro!: grows_intros)

lemma grows_validate_hostname: "grows (validate_hostname env it)"
  by (auto simp: validate_hostname_def intro!: grows_intros)

lemma grows_exec_hook: "grows (exec_hook env st k it)"
  by (auto simp: exec_hook_def intro!: grows_intros split: option.splits)

lemma grows_db_dumps: "grows (db_dumps env it)"
  by (auto simp: db_dumps_def intro!: grows_intros)

lemma grows_ssh_transfer: "grows (ssh_transfer env it)"
  by (auto simp: ssh_transfer_def intro!: grows_intros)

lemma grows_sync_ssh: "grows (sync_ssh env it)"
  by (auto simp: sync_ssh_def sync_ssh_body_def ssh_after_validation_def
      intro!: grows_intros grows_ssh_check grows_validate_hostname grows_exec_hook grows_db_dumps
        grows_ssh_transfer)

lemma grows_native_txt_check: "grows (native_txt_check env it)"
  by (auto simp: native_txt_check_def intro!: grows_intros)

lemma grows_native_transfer: "grows (native_transfer env it)"
  by (auto simp: native_transfer_def intro!: grows_intros)

lemma grows_sync_native: "grows (sync_native env it)"
  by (auto simp: sync_native_def sync_native_body_def
      intro!: grows_intros grows_native_txt_check grows_native_transfer split: option.splits)

lemma grows_sync: "grows (sync env it)"
  by (auto simp: sync_def intro!: grows_intros grows_sync_ssh grows_sync_native)

lemma grows_process_item: "grows (process_item env a it)"
  by (auto simp: process_item_def Let_def intro!: grows_intros grows_before_backup_check
      grows_rotate grows_sync split: option.splits)

lemma item_step_errors: "errors s \<le> errors (snd (item_step env a it s))"
proof -
  have "errors s \<le> errors (snd (process_item env a it s))"
    using grows_process_item by (simp add: grows_def)
  then show ?thesis
    by (cases "process_item env a it s")
       (auto simp: item_step_def split: sum.splits bool.splits outcome.splits)
qed

lemma run_items_errors: "errors s \<le> errors (snd (run_items env a its s))"
proof (induction its arbitrary: s)
  case Nil
  then show ?case by simp
next
  case (Cons it its)
  show ?case
  proof (cases "item_step env a it s")
    case (Pair r s1)
    have 1: "errors s \<le> errors s1" using item_step_errors [of s env a it] Pair by simp
    show ?thesis
    proof (cases r)
      case None
      with Pair 1 Cons [of s1] show ?thesis by simp
    next
      case (Some e)
      with Pair 1 show ?thesis by simp
    qed
  qed
qed

text \<open>
  Claim C2. The exit code of a run, case by case. A configuration that does not load, or
  lacks the \<^verbatim>\<open>enabled\<close> or the \<^verbatim>\<open>items\<close> key, gives 1. When \<^verbatim>\<open>enabled\<close> is not
  true the run exits with 0 before the lock is tried and before any item is processed
  (the state is the initial one). When it is true and the lock is held the exit code is
  1. Otherwise the items are run: the exit code is 0 when the loop ends with error
  counter 0, and 1 when the counter is not 0 or an exception left the loop.
\<close>

theorem exit_codes:
  "(loaded = Inl e \<longrightarrow> fst (main env a loaded locked conf passwd) = 1)
   \<and> (loaded = Inr cfg \<longrightarrow>
        (cfg_enabled cfg = None \<longrightarrow> fst (main env a loaded locked conf passwd) = 1)
      \<and> (\<forall>en. cfg_enabled cfg = Some en \<longrightarrow>
           (\<not> py_eq en (VBool True) \<longrightarrow>
              main env a loaded locked conf passwd = (0, init_state conf passwd))
         \<and> (py_eq en (VBool True) \<longrightarrow>
              (locked \<longrightarrow> fst (main env a loaded locked conf passwd) = 1)
            \<and> (\<not> locked \<longrightarrow>
                 (cfg_items cfg = None \<longrightarrow> fst (main env a loaded locked conf passwd) = 1)
               \<and> (\<forall>its r s'. cfg_items cfg = Some its \<longrightarrow>
                      run_items env a its (init_state conf passwd) = (r, s') \<longrightarrow>
                      main env a loaded locked conf passwd =
                        (if r = None \<and> errors s' = 0 then 0 else 1, s'))))))"
proof -
  have nonneg: "0 \<le> errors s'"
    if "run_items env a its (init_state conf passwd) = (r, s')" for its r s'
    using run_items_errors [of "init_state conf passwd" env a its] that
    by (simp add: init_state_def)
  show ?thesis
    by (auto simp: main_def split: option.splits dest: nonneg)
qed


theorem exit_codes_witness:
  "main env_db1 args_sync
     (Inr \<lparr>cfg_enabled = Some (VBool False), cfg_items = Some [item_untyped]\<rparr>) False None None
     = (0, init_state None None)
   \<and> fst (main env_db1 args_sync
            (Inr \<lparr>cfg_enabled = Some (VBool True), cfg_items = Some [item_untyped]\<rparr>)
            True None None) = 1
   \<and> main env_db1 args_sync
       (Inr \<lparr>cfg_enabled = Some (VBool True), cfg_items = Some [item_untyped]\<rparr>) False None None
     = (1, (init_state None None)\<lparr>errors := 1\<rparr>)
   \<and> main env_db1 args_sync
       (Inr \<lparr>cfg_enabled = Some (VBool True), cfg_items = Some []\<rparr>) False None None
     = (0, init_state None None)
   \<and> fst (main env_db1 args_sync (Inl LoadError) False None None) = 1"
proof -
  let ?off = "\<lparr>cfg_enabled = Some (VBool False), cfg_items = Some [item_untyped]\<rparr>"
  let ?on = "\<lparr>cfg_enabled = Some (VBool True), cfg_items = Some [item_untyped]\<rparr>"
  let ?none = "\<lparr>cfg_enabled = Some (VBool True), cfg_items = Some []\<rparr>"
  have sel: "select_item args_sync item_untyped = Inr True"
    by (simp add: select_item_def args_sync_def item_untyped_def value_defs)
  have p: "\<And>s. process_item env_db1 args_sync item_untyped s = (Raise (KeyError ''type''), s)"
    by (simp add: example_defs Let_def prog_defs step_defs value_defs defaults_defs)
  have run: "run_items env_db1 args_sync [item_untyped] (init_state None None)
               = (None, (init_state None None)\<lparr>errors := 1\<rparr>)"
    by (simp add: item_step_def sel p init_state_def)
  show ?thesis
    using exit_codes [where loaded = "Inr ?off" and cfg = ?off and env = env_db1
          and a = args_sync and locked = False and conf = None and passwd = None]
      exit_codes [where loaded = "Inr ?on" and cfg = ?on and env = env_db1
          and a = args_sync and locked = True and conf = None and passwd = None]
      exit_codes [where loaded = "Inr ?on" and cfg = ?on and env = env_db1
          and a = args_sync and locked = False and conf = None and passwd = None]
      exit_codes [where loaded = "Inr ?none" and cfg = ?none and env = env_db1
          and a = args_sync and locked = False and conf = None and passwd = None]
      exit_codes [where loaded = "Inl LoadError" and e = LoadError and env = env_db1
          and a = args_sync and locked = False and conf = None and passwd = None]
      run
    by (simp add: py_eq_def init_state_def)
qed

section \<open>Rotation once per path\<close>


lemma apply_defaults_path: "apply_defaults d it ''path'' = it ''path''"
  by (simp add: apply_defaults_map_add map_add_def set_verbosity_def defaults_before_def
      defaults_after_def split: option.splits)


lemma rotation_conf_defaults:
  assumes "it ''path'' = Some p"
  shows "\<exists>ls. rotation_conf (apply_defaults d it) = Inr ls"
proof -
  have "apply_defaults d it ''path'' = Some p" using assms by (simp add: apply_defaults_path)
  moreover have "\<exists>v. apply_defaults d it ''retain_daily'' = Some v"
    "\<exists>v. apply_defaults d it ''retain_weekly'' = Some v"
    "\<exists>v. apply_defaults d it ''retain_monthly'' = Some v"
    "\<exists>v. apply_defaults d it ''verbosity_level'' = Some v"
    by (auto simp: apply_defaults_map_add map_add_def set_verbosity_def defaults_before_def
        defaults_after_def split: option.splits)
  ultimately show ?thesis
    by (auto simp: rotation_conf_def conf_head_def getitem_def bind_e_def)
qed





lemma rotation_inv_errors [simp]: "rotation_inv (s\<lparr>errors := n\<rparr>) = rotation_inv s"
  by (simp add: rotation_inv_def)








section \<open>Emitted configuration files\<close>

lemma fmts_present:
  "(\<forall>k \<in> set ks. it k \<noteq> None) \<Longrightarrow> fmts it ks = Inr (map (\<lambda>k. py_str (the (it k))) ks)"
  by (induction ks) (auto simp: getitem_def bind_e_def)

lemma conf_head_emits:
  assumes "it ''path'' \<noteq> None" and "it ''retain_daily'' \<noteq> None"
    and "it ''retain_weekly'' \<noteq> None" and "it ''retain_monthly'' \<noteq> None"
    and "it ''verbosity_level'' \<noteq> None"
  shows "\<exists>hs. conf_head it = Inr hs"
  using assms by (auto simp: conf_head_def getitem_def bind_e_def)

lemma apply_defaults_present:
  assumes "k \<in> fst ` set (defaults_before @ defaults_after)
           \<or> k = ''verbosity_level'' \<or> k = ''rsync_verbosity_args''"
  shows "apply_defaults d it k \<noteq> None"
  using assms
  by (auto simp: apply_defaults_map_add map_add_def set_verbosity_def defaults_before_def
      defaults_after_def split: option.splits)

lemma derive_connect_keys:
  assumes "derive_connect p it' = Inr it"
  shows "it ''connect_port'' \<noteq> None \<and> it ''connect_host'' \<noteq> None
       \<and> (\<forall>k. k \<noteq> ''connect_host'' \<longrightarrow> k \<noteq> ''connect_port'' \<longrightarrow> it k = it' k)"
  using assms
  by (auto simp: derive_connect_def bind_e_def getitem_def split: option.splits sum.splits
      if_splits)

lemma derived_present:
  assumes "it0 ''path'' = Some root" and "derive_connect p (apply_defaults dbg it0) = Inr it1"
  shows "(\<exists>hs. conf_head it1 = Inr hs) \<and> it1 ''connect_port'' \<noteq> None
       \<and> it1 ''connect_host'' \<noteq> None \<and> it1 ''connect_user'' \<noteq> None
       \<and> it1 ''rsync_verbosity_args'' \<noteq> None \<and> it1 ''rsync_args'' \<noteq> None
       \<and> it1 ''source'' = it0 ''source''"
proof -
  note k = derive_connect_keys [OF assms(2)]
  have same: "it1 x = apply_defaults dbg it0 x"
    if "x \<noteq> ''connect_host''" "x \<noteq> ''connect_port''" for x
    using k that by simp
  have d: "apply_defaults dbg it0 x \<noteq> None"
    if "x \<in> {''retain_daily'', ''retain_weekly'', ''retain_monthly'', ''verbosity_level'',
              ''connect_user'', ''rsync_verbosity_args'', ''rsync_args''}" for x
    using that by (intro apply_defaults_present) (auto simp: defaults_before_def defaults_after_def)
  have p: "it1 ''path'' \<noteq> None" using assms(1) by (simp add: same apply_defaults_path)
  have src: "it1 ''source'' = it0 ''source''"
    by (simp add: same apply_defaults_map_add map_add_def set_verbosity_def defaults_before_def
        defaults_after_def split: option.splits)
  have "\<exists>hs. conf_head it1 = Inr hs"
    by (rule conf_head_emits) (use p d in \<open>simp_all add: same\<close>)
  then show ?thesis using k d src by (simp add: same)
qed

lemma ssh_conf_emits:
  assumes "\<exists>hs. conf_head it = Inr hs" and "it ''connect_port'' \<noteq> None"
    and "it ''rsync_verbosity_args'' \<noteq> None" and "it ''rsync_args'' \<noteq> None"
  shows "\<exists>ls. ssh_conf it bl = Inr ls"
proof -
  from assms(1) obtain hs where "conf_head it = Inr hs" ..
  moreover have "\<exists>vs. fmts it [''connect_port'', ''rsync_verbosity_args'', ''rsync_args'']
                        = Inr vs"
    using assms(2-4) by (subst fmts_present) simp_all
  ultimately show ?thesis by (auto simp: ssh_conf_def bind_e_def)
qed

lemma native_conf_emits:
  assumes "\<exists>hs. conf_head it = Inr hs" and "it ''connect_port'' \<noteq> None"
    and "it ''connect_host'' \<noteq> None" and "it ''connect_user'' \<noteq> None"
    and "it ''rsync_verbosity_args'' \<noteq> None" and "it ''rsync_args'' \<noteq> None"
    and "it ''source'' \<noteq> None"
  shows "\<exists>ls. native_conf it = Inr ls"
proof -
  from assms(1) obtain hs where "conf_head it = Inr hs" ..
  moreover have "\<exists>vs. fmts it [''rsync_verbosity_args'', ''rsync_args'', ''connect_user'',
                               ''connect_host'', ''connect_port'', ''source''] = Inr vs"
    using assms(2-7) by (subst fmts_present) simp_all
  ultimately show ?thesis by (auto simp: native_conf_def bind_e_def)
qed

lemma rotate_writes:
  assumes "it ''path'' = Some p" and "\<not> py_in_list p (paths_processed s)"
    and "rotation_conf it = Inr ls"
  shows "conf_file (snd (rotate env command it s)) = Some (concat (map (\<lambda>l. l @ nl) ls))"
  using assms
  by (auto simp: rotate_def prog_defs mark_path_def getitem_def split: cmd_result.splits)

lemma ssh_transfer_writes:
  assumes "conf_backup_lines it = Inr bl" and "ssh_conf it bl = Inr ls"
  shows "conf_file (snd (ssh_transfer env it s)) = Some (concat (map (\<lambda>l. l @ nl) ls))"
  using assms
  by (auto simp: ssh_transfer_def prog_defs split: cmd_result.splits)

lemma native_transfer_writes:
  assumes "native_conf it = Inr ls"
  shows "conf_file (snd (native_transfer env it s)) = Some (concat (map (\<lambda>l. l @ nl) ls))"
  using assms
  by (auto simp: native_transfer_def prog_defs getitem_def split: cmd_result.splits option.splits)

text \<open>
  Claim C7. In a configuration emitted by any of the three templates (rotation, sync over
  SSH, sync over native rsync), lines 9 to 11 are the active daily, weekly and monthly
  retention lines with the item's values. Line 8 is the active hourly retention line with
  the item's \<^verbatim>\<open>retain_hourly\<close> when the item has that key, and the commented line
  \<^verbatim>\<open>#retain hourly NONE\<close> when it has not. Each template does emit a configuration for
  an item with a \<^verbatim>\<open>path\<close> once the defaults are applied (for the two sync templates:
  once host and port are derived from \<^verbatim>\<open>connect\<close>, and for native rsync with a
  \<^verbatim>\<open>source\<close>), and the file written by the rotation step (for a path not rotated yet),
  by the SSH transfer and by the native transfer holds exactly the emitted lines, each
  closed by a newline.
\<close>

theorem retention_lines:
  "(rotation_conf it = Inr ls \<or> ssh_conf it bl = Inr ls \<or> native_conf it = Inr ls \<longrightarrow>
      (\<exists>d w m. it ''retain_daily'' = Some d \<and> it ''retain_weekly'' = Some w
           \<and> it ''retain_monthly'' = Some m
           \<and> ls ! 8 = ''retain'' @ tab @ tab @ ''daily'' @ tab @ py_str d
           \<and> ls ! 9 = ''retain'' @ tab @ tab @ ''weekly'' @ tab @ py_str w
           \<and> ls ! 10 = ''retain'' @ tab @ tab @ ''monthly'' @ tab @ py_str m
           \<and> ls ! 7 = (case it ''retain_hourly'' of
                         Some h \<Rightarrow> ''retain'' @ tab @ tab @ ''hourly'' @ tab @ py_str h
                       | None \<Rightarrow> ''#retain'' @ tab @ tab @ ''hourly'' @ tab @ ''NONE'')))
   \<and> (it0 ''path'' = Some root \<longrightarrow>
        (\<exists>ls. rotation_conf (apply_defaults dbg it0) = Inr ls))
   \<and> (it0 ''path'' = Some root \<longrightarrow> derive_connect p (apply_defaults dbg it0) = Inr it1 \<longrightarrow>
        (\<exists>ls. ssh_conf it1 bl = Inr ls))
   \<and> (it0 ''path'' = Some root \<longrightarrow> it0 ''source'' = Some src \<longrightarrow>
        derive_connect p (apply_defaults dbg it0) = Inr it1 \<longrightarrow>
        (\<exists>ls. native_conf it1 = Inr ls))
   \<and> (it ''path'' = Some pa \<longrightarrow> \<not> py_in_list pa (paths_processed s) \<longrightarrow>
        rotation_conf it = Inr ls \<longrightarrow>
        conf_file (snd (rotate env command it s)) = Some (concat (map (\<lambda>l. l @ nl) ls)))
   \<and> (conf_backup_lines it = Inr bl \<longrightarrow> ssh_conf it bl = Inr ls \<longrightarrow>
        conf_file (snd (ssh_transfer env it s)) = Some (concat (map (\<lambda>l. l @ nl) ls)))
   \<and> (native_conf it = Inr ls \<longrightarrow>
        conf_file (snd (native_transfer env it s)) = Some (concat (map (\<lambda>l. l @ nl) ls)))"
proof (intro conjI impI)
  assume a: "rotation_conf it = Inr ls \<or> ssh_conf it bl = Inr ls \<or> native_conf it = Inr ls"
  from emitted_head [OF a] obtain hs rest
    where hs: "conf_head it = Inr hs" and ls: "ls = hs @ rest"
    by blast
  from conf_head_lines [OF hs] obtain d w m where
    *: "it ''retain_daily'' = Some d" "it ''retain_weekly'' = Some w"
       "it ''retain_monthly'' = Some m"
       "length hs = 15" "hs ! 7 = retain_hourly_line it"
       "hs ! 8 = ''retain'' @ tab @ tab @ ''daily'' @ tab @ py_str d"
       "hs ! 9 = ''retain'' @ tab @ tab @ ''weekly'' @ tab @ py_str w"
       "hs ! 10 = ''retain'' @ tab @ tab @ ''monthly'' @ tab @ py_str m"
    by blast
  have nth: "\<And>i. i < 15 \<Longrightarrow> ls ! i = hs ! i"
    using * by (simp add: ls nth_append)
  show "\<exists>d w m. it ''retain_daily'' = Some d \<and> it ''retain_weekly'' = Some w
           \<and> it ''retain_monthly'' = Some m
           \<and> ls ! 8 = ''retain'' @ tab @ tab @ ''daily'' @ tab @ py_str d
           \<and> ls ! 9 = ''retain'' @ tab @ tab @ ''weekly'' @ tab @ py_str w
           \<and> ls ! 10 = ''retain'' @ tab @ tab @ ''monthly'' @ tab @ py_str m
           \<and> ls ! 7 = (case it ''retain_hourly'' of
                         Some h \<Rightarrow> ''retain'' @ tab @ tab @ ''hourly'' @ tab @ py_str h
                       | None \<Rightarrow> ''#retain'' @ tab @ tab @ ''hourly'' @ tab @ ''NONE'')"
    using * by (simp add: nth retain_hourly_line_def split: option.splits)
next
  assume "it0 ''path'' = Some root"
  then show "\<exists>ls. rotation_conf (apply_defaults dbg it0) = Inr ls"
    by (rule rotation_conf_defaults)
next
  assume "it0 ''path'' = Some root" "derive_connect p (apply_defaults dbg it0) = Inr it1"
  from derived_present [OF this] show "\<exists>ls. ssh_conf it1 bl = Inr ls"
    by (intro ssh_conf_emits) simp_all
next
  assume "it0 ''path'' = Some root" "it0 ''source'' = Some src"
    "derive_connect p (apply_defaults dbg it0) = Inr it1"
  from derived_present [OF this(1,3)] this(2) show "\<exists>ls. native_conf it1 = Inr ls"
    by (intro native_conf_emits) simp_all
qed (simp_all add: rotate_writes ssh_transfer_writes native_transfer_writes)

theorem retention_lines_witness:
  "\<exists>l1 l2 l3.
     rotation_conf (apply_defaults False [''path'' \<mapsto> VStr ''/b'', ''retain_hourly'' \<mapsto> VInt 3])
       = Inr l1
     \<and> l1 ! 7 = ''retain'' @ tab @ tab @ ''hourly'' @ tab @ ''3''
     \<and> l1 ! 8 = ''retain'' @ tab @ tab @ ''daily'' @ tab @ ''7''
     \<and> ssh_conf ((apply_defaults False item_db1)
                    (''connect_host'' \<mapsto> VStr ''10.0.0.1'', ''connect_port'' \<mapsto> VInt 22)) []
       = Inr l2
     \<and> l2 ! 7 = ''#retain'' @ tab @ tab @ ''hourly'' @ tab @ ''NONE''
     \<and> l2 ! 9 = ''retain'' @ tab @ tab @ ''weekly'' @ tab @ ''4''
     \<and> native_conf ((apply_defaults False item_native)
                       (''connect_host'' \<mapsto> VStr ''10.0.0.2'', ''connect_port'' \<mapsto> VInt 873))
       = Inr l3
     \<and> l3 ! 7 = ''#retain'' @ tab @ tab @ ''hourly'' @ tab @ ''NONE''
     \<and> l3 ! 10 = ''retain'' @ tab @ tab @ ''monthly'' @ tab @ ''3''
     \<and> conf_file (snd (native_transfer env_db1
          ((apply_defaults False item_native)
             (''connect_host'' \<mapsto> VStr ''10.0.0.2'', ''connect_port'' \<mapsto> VInt 873))
          (init_state None None)))
       = Some (concat (map (\<lambda>l. l @ nl) l3))"
proof -
  let ?raw = "[''path'' \<mapsto> VStr ''/b'', ''retain_hourly'' \<mapsto> VInt 3]"
  let ?rot = "apply_defaults False ?raw"
  let ?b = "(apply_defaults False item_db1)
              (''connect_host'' \<mapsto> VStr ''10.0.0.1'', ''connect_port'' \<mapsto> VInt 22)"
  let ?c = "(apply_defaults False item_native)
              (''connect_host'' \<mapsto> VStr ''10.0.0.2'', ''connect_port'' \<mapsto> VInt 873)"
  have db: "derive_connect 22 (apply_defaults False item_db1) = Inr ?b"
    by (simp add: derive_connect_def has_colon_def item_db1_def defaults_defs value_defs)
  have dc: "derive_connect 873 (apply_defaults False item_native) = Inr ?c"
    by (simp add: derive_connect_def has_colon_def item_native_def defaults_defs value_defs)
  have p: "?raw ''path'' = Some (VStr ''/b'')" "item_db1 ''path'' = Some (VStr ''/backup/db1'')"
    "item_native ''path'' = Some (VStr ''/backup/win1'')"
    "item_native ''source'' = Some (VStr ''/data'')"
    by (simp_all add: item_db1_def item_native_def)
  obtain l1 where l1: "rotation_conf ?rot = Inr l1"
    using retention_lines [where ?it0.0 = ?raw and dbg = False and root = "VStr ''/b''",
        THEN conjunct2, THEN conjunct1] p
    by blast
  obtain l2 where l2: "ssh_conf ?b [] = Inr l2"
    using retention_lines [where ?it0.0 = item_db1 and dbg = False and p = 22 and ?it1.0 = ?b
        and bl = "[]" and root = "VStr ''/backup/db1''",
        THEN conjunct2, THEN conjunct2, THEN conjunct1] p db
    by blast
  obtain l3 where l3: "native_conf ?c = Inr l3"
    using retention_lines [where ?it0.0 = item_native and dbg = False and p = 873
        and ?it1.0 = ?c and root = "VStr ''/backup/win1''" and src = "VStr ''/data''",
        THEN conjunct2, THEN conjunct2, THEN conjunct2, THEN conjunct1] p dc
    by blast
  have va: "?rot ''retain_hourly'' = Some (VInt 3)" "?rot ''retain_daily'' = Some (VInt 7)"
    by (simp_all add: defaults_defs)
  have vb: "?b ''retain_hourly'' = None" "?b ''retain_weekly'' = Some (VInt 4)"
    by (simp_all add: defaults_defs item_db1_def)
  have vc: "?c ''retain_hourly'' = None" "?c ''retain_monthly'' = Some (VInt 3)"
    by (simp_all add: defaults_defs item_native_def)
  have "l1 ! 7 = ''retain'' @ tab @ tab @ ''hourly'' @ tab @ ''3''
      \<and> l1 ! 8 = ''retain'' @ tab @ tab @ ''daily'' @ tab @ ''7''"
    using retention_lines [where it = ?rot and ls = l1 and bl = "[]", THEN conjunct1] l1 va
    by (auto simp: str_of_int_def str_of_nat.simps)
  moreover have "l2 ! 7 = ''#retain'' @ tab @ tab @ ''hourly'' @ tab @ ''NONE''
      \<and> l2 ! 9 = ''retain'' @ tab @ tab @ ''weekly'' @ tab @ ''4''"
    using retention_lines [where it = ?b and ls = l2 and bl = "[]", THEN conjunct1] l2 vb
    by (auto simp: str_of_int_def str_of_nat.simps)
  moreover have "l3 ! 7 = ''#retain'' @ tab @ tab @ ''hourly'' @ tab @ ''NONE''
      \<and> l3 ! 10 = ''retain'' @ tab @ tab @ ''monthly'' @ tab @ ''3''"
    using retention_lines [where it = ?c and ls = l3 and bl = "[]", THEN conjunct1] l3 vc
    by (auto simp: str_of_int_def str_of_nat.simps)
  moreover have "conf_file (snd (native_transfer env_db1 ?c (init_state None None)))
          = Some (concat (map (\<lambda>l. l @ nl) l3))"
    using retention_lines [where it = ?c and ls = l3 and env = env_db1
        and s = "init_state None None", THEN conjunct2, THEN conjunct2, THEN conjunct2,
        THEN conjunct2, THEN conjunct2, THEN conjunct2] l3
    by blast
  ultimately show ?thesis using l1 l2 l3 by blast
qed

section \<open>Backup lines of the emitted configuration\<close>

lemma conf_head_no_backup:
  assumes "conf_head it = Inr hs"
  shows "filter (\<lambda>l. take 6 l = ''backup'') hs = []"
  using assms
  by (auto simp: conf_head_def bind_e_def getitem_def retain_hourly_line_def
      split: option.splits sum.splits)

lemma backup_line_prefix: "take 6 (conf_backup_line u h src a b) = ''backup''"
  by (simp add: conf_backup_line_def)

lemma ssh_conf_backup_lines:
  assumes "ssh_conf it bl = Inr ls" and "\<forall>l \<in> set bl. take 6 l = ''backup''"
  shows "filter (\<lambda>l. take 6 l = ''backup'') ls = bl"
proof -
  from assms(1) obtain hs a b c where hs: "conf_head it = Inr hs"
    and ls: "ls = hs @ [''ssh_args'' @ a, ''rsync_long_args'' @ b, ''sync_first'' @ c] @ bl @ [[]]"
    by (auto simp: ssh_conf_def bind_e_def split: sum.splits)
  have "filter (\<lambda>l. take 6 l = ''backup'') bl = bl"
    using assms(2) by (simp add: filter_id_conv)
  then show ?thesis using conf_head_no_backup [OF hs] by (simp add: ls)
qed

text \<open>
  Claim C8, amended. For an \<^verbatim>\<open>RSYNC_SSH\<close> item whose \<^verbatim>\<open>exclude\<close> is absent or a list:
  when \<^verbatim>\<open>source\<close> names an OS family of the table, the backup lines are one line per
  directory of that family's list, in order, leaving out the directories listed in
  \<^verbatim>\<open>exclude\<close>; for any other \<^verbatim>\<open>source\<close> (a path, or \<^verbatim>\<open>ALL\<close>) there is exactly one
  line, for that source. The SSH template emits a configuration with these lines for an
  item that has the keys of the template; the lines of the emitted configuration that
  begin with \<^verbatim>\<open>backup\<close> are exactly these lines, and the configuration file written by
  the SSH transfer holds the emitted configuration.
\<close>

theorem backup_lines_by_source:
  assumes "it ''type'' = Some (VStr ''RSYNC_SSH'')" and "it ''source'' = Some (VStr src)"
    and "it ''connect_user'' = Some u" and "it ''connect_host'' = Some h"
    and "it ''exclude'' = None \<or> (\<exists>ex. it ''exclude'' = Some (VList ex))"
  shows "\<exists>bl.
     bl = (case data_expand src of
            Some dirs \<Rightarrow>
              map (\<lambda>d. conf_backup_line (py_str u) (py_str h) d
                     (if d = ''/opt/sysadmws'' then tab else [])
                     (if d = ''/opt/sysadmws''
                      then ''+rsync_long_args=--exclude=/opt/sysadmws/bulk_log --exclude=log''
                      else []))
                (filter (\<lambda>d. d \<notin> (case it ''exclude'' of Some (VList ex) \<Rightarrow> set ex | _ \<Rightarrow> {}))
                   dirs)
          | None \<Rightarrow> [conf_backup_line (py_str u) (py_str h) src [] []])
     \<and> conf_backup_lines it = Inr bl
     \<and> (it ''path'' \<noteq> None \<and> it ''retain_daily'' \<noteq> None \<and> it ''retain_weekly'' \<noteq> None
          \<and> it ''retain_monthly'' \<noteq> None \<and> it ''verbosity_level'' \<noteq> None
          \<and> it ''connect_port'' \<noteq> None \<and> it ''rsync_verbosity_args'' \<noteq> None
          \<and> it ''rsync_args'' \<noteq> None
        \<longrightarrow> (\<exists>ls. ssh_conf it bl = Inr ls))
     \<and> (\<forall>ls. ssh_conf it bl = Inr ls \<longrightarrow>
           filter (\<lambda>l. take 6 l = ''backup'') ls = bl
         \<and> conf_file (snd (ssh_transfer env it s)) = Some (concat (map (\<lambda>l. l @ nl) ls)))"
proof -
  let ?bl = "case data_expand src of
            Some dirs \<Rightarrow>
              map (\<lambda>d. conf_backup_line (py_str u) (py_str h) d
                     (if d = ''/opt/sysadmws'' then tab else [])
                     (if d = ''/opt/sysadmws''
                      then ''+rsync_long_args=--exclude=/opt/sysadmws/bulk_log --exclude=log''
                      else []))
                (filter (\<lambda>d. d \<notin> (case it ''exclude'' of Some (VList ex) \<Rightarrow> set ex | _ \<Rightarrow> {}))
                   dirs)
          | None \<Rightarrow> [conf_backup_line (py_str u) (py_str h) src [] []]"
  have bl: "conf_backup_lines it = Inr ?bl"
  proof (cases "data_expand src")
    case None
    then show ?thesis using assms(1-4)
      by (simp add: conf_backup_lines_def bind_e_def getitem_def expand_key_def)
  next
    case (Some dirs)
    then show ?thesis using assms(1,2) expand_lines_list [OF assms(3-5), of dirs]
      by (simp add: conf_backup_lines_def bind_e_def getitem_def expand_key_def)
  qed
  have pre: "\<forall>l \<in> set ?bl. take 6 l = ''backup''"
    by (auto simp: backup_line_prefix split: option.splits)
  have emits: "\<exists>ls. ssh_conf it ?bl = Inr ls"
    if "it ''path'' \<noteq> None \<and> it ''retain_daily'' \<noteq> None \<and> it ''retain_weekly'' \<noteq> None
          \<and> it ''retain_monthly'' \<noteq> None \<and> it ''verbosity_level'' \<noteq> None
          \<and> it ''connect_port'' \<noteq> None \<and> it ''rsync_verbosity_args'' \<noteq> None
          \<and> it ''rsync_args'' \<noteq> None"
    using that by (intro ssh_conf_emits conf_head_emits) simp_all
  have written: "filter (\<lambda>l. take 6 l = ''backup'') ls = ?bl
         \<and> conf_file (snd (ssh_transfer env it s)) = Some (concat (map (\<lambda>l. l @ nl) ls))"
    if "ssh_conf it ?bl = Inr ls" for ls
    using ssh_conf_backup_lines [OF that pre] ssh_transfer_writes [OF bl that] by simp
  show ?thesis using bl emits written by blast
qed

theorem backup_lines_by_source_witness:
  "\<exists>ls ls'.
     conf_backup_lines ((apply_defaults False item_centos)
        (''connect_host'' \<mapsto> VStr ''10.0.0.1'', ''connect_port'' \<mapsto> VInt 22))
       = Inr [''backup'' @ tab @ tab @ ''root@10.0.0.1:/etc/'' @ tab @ ''rsnapshot/'',
              ''backup'' @ tab @ tab @ ''root@10.0.0.1:/root/'' @ tab @ ''rsnapshot/'',
              ''backup'' @ tab @ tab @ ''root@10.0.0.1:/var/spool/cron/'' @ tab @ ''rsnapshot/'',
              ''backup'' @ tab @ tab @ ''root@10.0.0.1:/var/lib/rpm/'' @ tab @ ''rsnapshot/'',
              ''backup'' @ tab @ tab @ ''root@10.0.0.1:/usr/local/'' @ tab @ ''rsnapshot/'']
     \<and> conf_file (snd (ssh_transfer env_db1 ((apply_defaults False item_centos)
            (''connect_host'' \<mapsto> VStr ''10.0.0.1'', ''connect_port'' \<mapsto> VInt 22))
            (init_state None None)))
       = Some (concat (map (\<lambda>l. l @ nl) ls))
     \<and> filter (\<lambda>l. take 6 l = ''backup'') ls
       = [''backup'' @ tab @ tab @ ''root@10.0.0.1:/etc/'' @ tab @ ''rsnapshot/'',
          ''backup'' @ tab @ tab @ ''root@10.0.0.1:/root/'' @ tab @ ''rsnapshot/'',
          ''backup'' @ tab @ tab @ ''root@10.0.0.1:/var/spool/cron/'' @ tab @ ''rsnapshot/'',
          ''backup'' @ tab @ tab @ ''root@10.0.0.1:/var/lib/rpm/'' @ tab @ ''rsnapshot/'',
          ''backup'' @ tab @ tab @ ''root@10.0.0.1:/usr/local/'' @ tab @ ''rsnapshot/'']
     \<and> conf_file (snd (ssh_transfer env_db1 ((apply_defaults False item_db1)
            (''connect_host'' \<mapsto> VStr ''10.0.0.1'', ''connect_port'' \<mapsto> VInt 22))
            (init_state None None)))
       = Some (concat (map (\<lambda>l. l @ nl) ls'))
     \<and> filter (\<lambda>l. take 6 l = ''backup'') ls'
       = [''backup'' @ tab @ tab @ ''root@10.0.0.1:/etc/'' @ tab @ ''rsnapshot/'']"
proof -
  define c where "c = (apply_defaults False item_centos)
              (''connect_host'' \<mapsto> VStr ''10.0.0.1'', ''connect_port'' \<mapsto> VInt 22)"
  define d where "d = (apply_defaults False item_db1)
              (''connect_host'' \<mapsto> VStr ''10.0.0.1'', ''connect_port'' \<mapsto> VInt 22)"
  have kc: "c ''type'' = Some (VStr ''RSYNC_SSH'')" "c ''source'' = Some (VStr ''CENTOS'')"
    "c ''connect_user'' = Some (VStr ''root'')" "c ''connect_host'' = Some (VStr ''10.0.0.1'')"
    "c ''exclude'' = Some (VList [''/home'', ''/opt/sysadmws''])"
    by (simp_all add: c_def defaults_defs item_centos_def)
  have pc: "c ''path'' \<noteq> None \<and> c ''retain_daily'' \<noteq> None \<and> c ''retain_weekly'' \<noteq> None
      \<and> c ''retain_monthly'' \<noteq> None \<and> c ''verbosity_level'' \<noteq> None
      \<and> c ''connect_port'' \<noteq> None \<and> c ''rsync_verbosity_args'' \<noteq> None
      \<and> c ''rsync_args'' \<noteq> None"
    by (simp add: c_def defaults_defs item_centos_def)
  have kd: "d ''type'' = Some (VStr ''RSYNC_SSH'')" "d ''source'' = Some (VStr ''/etc'')"
    "d ''connect_user'' = Some (VStr ''root'')" "d ''connect_host'' = Some (VStr ''10.0.0.1'')"
    "d ''exclude'' = None"
    by (simp_all add: d_def defaults_defs item_db1_def)
  have pd: "d ''path'' \<noteq> None \<and> d ''retain_daily'' \<noteq> None \<and> d ''retain_weekly'' \<noteq> None
      \<and> d ''retain_monthly'' \<noteq> None \<and> d ''verbosity_level'' \<noteq> None
      \<and> d ''connect_port'' \<noteq> None \<and> d ''rsync_verbosity_args'' \<noteq> None
      \<and> d ''rsync_args'' \<noteq> None"
    by (simp add: d_def defaults_defs item_db1_def)
  have ec: "c ''exclude'' = None \<or> (\<exists>ex. c ''exclude'' = Some (VList ex))"
    by (rule disjI2, rule exI, rule kc(5))
  have ed: "d ''exclude'' = None \<or> (\<exists>ex. d ''exclude'' = Some (VList ex))"
    by (rule disjI1, rule kd(5))
  have vc: "(case data_expand ''CENTOS'' of
            Some dirs \<Rightarrow>
              map (\<lambda>d. conf_backup_line (py_str (VStr ''root'')) (py_str (VStr ''10.0.0.1'')) d
                     (if d = ''/opt/sysadmws'' then tab else [])
                     (if d = ''/opt/sysadmws''
                      then ''+rsync_long_args=--exclude=/opt/sysadmws/bulk_log --exclude=log''
                      else []))
                (filter (\<lambda>d. d \<notin> (case c ''exclude'' of Some (VList ex) \<Rightarrow> set ex | _ \<Rightarrow> {}))
                   dirs)
          | None \<Rightarrow> [conf_backup_line (py_str (VStr ''root'')) (py_str (VStr ''10.0.0.1''))
                      ''CENTOS'' [] []])
       = [''backup'' @ tab @ tab @ ''root@10.0.0.1:/etc/'' @ tab @ ''rsnapshot/'',
          ''backup'' @ tab @ tab @ ''root@10.0.0.1:/root/'' @ tab @ ''rsnapshot/'',
          ''backup'' @ tab @ tab @ ''root@10.0.0.1:/var/spool/cron/'' @ tab @ ''rsnapshot/'',
          ''backup'' @ tab @ tab @ ''root@10.0.0.1:/var/lib/rpm/'' @ tab @ ''rsnapshot/'',
          ''backup'' @ tab @ tab @ ''root@10.0.0.1:/usr/local/'' @ tab @ ''rsnapshot/'']"
    by (simp add: kc(5) data_expand_def conf_backup_line_def)
  have vd: "(case data_expand ''/etc'' of
            Some dirs \<Rightarrow>
              map (\<lambda>x. conf_backup_line (py_str (VStr ''root'')) (py_str (VStr ''10.0.0.1'')) x
                     (if x = ''/opt/sysadmws'' then tab else [])
                     (if x = ''/opt/sysadmws''
                      then ''+rsync_long_args=--exclude=/opt/sysadmws/bulk_log --exclude=log''
                      else []))
                (filter (\<lambda>x. x \<notin> (case d ''exclude'' of Some (VList ex) \<Rightarrow> set ex | _ \<Rightarrow> {}))
                   dirs)
          | None \<Rightarrow> [conf_backup_line (py_str (VStr ''root'')) (py_str (VStr ''10.0.0.1''))
                      ''/etc'' [] []])
       = [''backup'' @ tab @ tab @ ''root@10.0.0.1:/etc/'' @ tab @ ''rsnapshot/'']"
    by (simp add: data_expand_def conf_backup_line_def)
  note tc = backup_lines_by_source [of c "''CENTOS''" "VStr ''root''" "VStr ''10.0.0.1''"
      env_db1 "init_state None None", OF kc(1-4) ec, unfolded vc]
  note td = backup_lines_by_source [of d "''/etc''" "VStr ''root''" "VStr ''10.0.0.1''"
      env_db1 "init_state None None", OF kd(1-4) ed, unfolded vd]
  from tc pc obtain ls where c: "conf_backup_lines c
       = Inr [''backup'' @ tab @ tab @ ''root@10.0.0.1:/etc/'' @ tab @ ''rsnapshot/'',
              ''backup'' @ tab @ tab @ ''root@10.0.0.1:/root/'' @ tab @ ''rsnapshot/'',
              ''backup'' @ tab @ tab @ ''root@10.0.0.1:/var/spool/cron/'' @ tab @ ''rsnapshot/'',
              ''backup'' @ tab @ tab @ ''root@10.0.0.1:/var/lib/rpm/'' @ tab @ ''rsnapshot/'',
              ''backup'' @ tab @ tab @ ''root@10.0.0.1:/usr/local/'' @ tab @ ''rsnapshot/'']"
    "conf_file (snd (ssh_transfer env_db1 c (init_state None None)))
       = Some (concat (map (\<lambda>l. l @ nl) ls))"
    "filter (\<lambda>l. take 6 l = ''backup'') ls
       = [''backup'' @ tab @ tab @ ''root@10.0.0.1:/etc/'' @ tab @ ''rsnapshot/'',
          ''backup'' @ tab @ tab @ ''root@10.0.0.1:/root/'' @ tab @ ''rsnapshot/'',
          ''backup'' @ tab @ tab @ ''root@10.0.0.1:/var/spool/cron/'' @ tab @ ''rsnapshot/'',
          ''backup'' @ tab @ tab @ ''root@10.0.0.1:/var/lib/rpm/'' @ tab @ ''rsnapshot/'',
          ''backup'' @ tab @ tab @ ''root@10.0.0.1:/usr/local/'' @ tab @ ''rsnapshot/'']"
    by blast
  from td pd obtain ls' where d: "conf_file (snd (ssh_transfer env_db1 d (init_state None None)))
       = Some (concat (map (\<lambda>l. l @ nl) ls'))"
    "filter (\<lambda>l. take 6 l = ''backup'') ls'
       = [''backup'' @ tab @ tab @ ''root@10.0.0.1:/etc/'' @ tab @ ''rsnapshot/'']"
    by blast
  from c d show ?thesis unfolding c_def d_def by blast
qed

end
